theory Spec2Isabelle
  imports Main
begin

section \<open>Schema of the role system\<close>

text \<open>
  The tables of the migration (src/unnamed/part_003, identical in part_002):
  \<^verbatim>\<open>roles(id PRIMARY KEY, name UNIQUE NOT NULL, description)\<close> and
  \<^verbatim>\<open>user_roles(user_id, role_id, assigned_by, PRIMARY KEY (user_id, role_id))\<close>,
  the deprecated \<^verbatim>\<open>admin_users(email, role)\<close> that \<^verbatim>\<open>is_admin()\<close> consults, and the
  identity provider's \<^verbatim>\<open>auth.users(id, email)\<close>. A table is the list of its rows.
  The timestamp columns (\<^verbatim>\<open>created_at\<close>, \<^verbatim>\<open>updated_at\<close>, \<^verbatim>\<open>assigned_at\<close>) are left
  out: no function below reads them.
\<close>

type_synonym uuid = string

record role_row =
  r_id :: uuid
  r_name :: string
  r_description :: "string option"

record user_role_row =
  ur_user_id :: uuid
  ur_role_id :: uuid
  ur_assigned_by :: "uuid option"

record admin_user_row =
  au_email :: string
  au_role :: string

record auth_user =
  u_id :: uuid
  u_email :: string

record database =
  roles :: "role_row list"
  user_roles :: "user_role_row list"
  admin_users :: "admin_user_row list"
  auth_users :: "auth_user list"

text \<open>
  The caller of a request: the authenticated user of the JWT, or nobody (the \<^verbatim>\<open>anon\<close>
  key). It is also the \<^verbatim>\<open>user: User | null\<close> of the React hook. \<^verbatim>\<open>auth.uid()\<close> and
  \<^verbatim>\<open>auth.email()\<close> are NULL for an anonymous caller.
\<close>

type_synonym session = "auth_user option"

definition auth_uid :: "session \<Rightarrow> uuid option" where
  "auth_uid s = map_option u_id s"

definition auth_email :: "session \<Rightarrow> string option" where
  "auth_email s = map_option u_email s"

section \<open>SQL helper functions\<close>

text \<open>
  \<^verbatim>\<open>SELECT r.name FROM user_roles ur JOIN roles r ON ur.role_id = r.id
  WHERE ur.user_id = auth.uid()\<close>. A comparison with NULL selects no row.
\<close>

definition get_user_roles :: "database \<Rightarrow> session \<Rightarrow> string list" where
  "get_user_roles db s =
     concat (map (\<lambda>ur. concat (map (\<lambda>r.
       if ur_role_id ur = r_id r \<and> Some (ur_user_id ur) = auth_uid s then [r_name r] else [])
       (roles db))) (user_roles db))"

text \<open>
  \<^verbatim>\<open>RETURN EXISTS (SELECT 1 FROM user_roles ur JOIN roles r ON ur.role_id = r.id
  WHERE ur.user_id = auth.uid() AND r.name = role_name)\<close>
\<close>

definition has_role :: "database \<Rightarrow> session \<Rightarrow> string \<Rightarrow> bool" where
  "has_role db s role_name =
     list_ex (\<lambda>ur. list_ex (\<lambda>r.
       ur_role_id ur = r_id r \<and> Some (ur_user_id ur) = auth_uid s \<and> r_name r = role_name)
       (roles db)) (user_roles db)"

text \<open>
  \<^verbatim>\<open>is_admin()\<close>: the new role system first, then the fallback to \<^verbatim>\<open>admin_users\<close>
  (\<^verbatim>\<open>WHERE email = auth.email() AND role IN ('admin', 'super_admin')\<close>).
\<close>

definition is_admin :: "database \<Rightarrow> session \<Rightarrow> bool" where
  "is_admin db s =
     (if list_ex (\<lambda>ur. list_ex (\<lambda>r.
           ur_role_id ur = r_id r \<and> Some (ur_user_id ur) = auth_uid s
           \<and> r_name r \<in> set [''admin'', ''super_admin''])
           (roles db)) (user_roles db)
      then True
      else list_ex (\<lambda>a. Some (au_email a) = auth_email s
             \<and> au_role a \<in> set [''admin'', ''super_admin'']) (admin_users db))"

definition can_manage_roles :: "database \<Rightarrow> session \<Rightarrow> bool" where
  "can_manage_roles db s = has_role db s ''super_admin''"

section \<open>Row level security policies\<close>

datatype pg_role = anon | authenticated

datatype command = SELECT | INSERT | UPDATE | DELETE

datatype table =
  T_roles | T_user_roles | T_bookings | T_yoga_queries | T_contact_messages | T_articles

text \<open>The expressions that occur in the \<^verbatim>\<open>USING\<close> and \<^verbatim>\<open>WITH CHECK\<close> clauses.\<close>

datatype pol_expr =
    E_true
  | E_can_manage_roles
  | E_is_admin
  | E_has_role string
  | E_user_id_eq_uid
  | E_or pol_expr pol_expr

text \<open>
  A policy as \<^verbatim>\<open>CREATE POLICY\<close> declares it; \<open>pol_for = None\<close> is \<^verbatim>\<open>FOR ALL\<close>. A policy
  without a \<^verbatim>\<open>WITH CHECK\<close> clause checks new rows with its \<^verbatim>\<open>USING\<close> expression.
\<close>

record policy =
  pol_name :: string
  pol_table :: table
  pol_for :: "command option"
  pol_to :: "pg_role list"
  pol_using :: pol_expr
  pol_with_check :: "pol_expr option"

text \<open>The policies in force after the migration part_003, in its order.\<close>

definition policies :: "policy list" where
  "policies =
   [ \<lparr>pol_name = ''Anyone can read roles'', pol_table = T_roles, pol_for = Some SELECT,
      pol_to = [authenticated, anon], pol_using = E_true, pol_with_check = None\<rparr>,
     \<lparr>pol_name = ''Super admins can manage roles'', pol_table = T_roles, pol_for = None,
      pol_to = [authenticated], pol_using = E_can_manage_roles,
      pol_with_check = Some E_can_manage_roles\<rparr>,
     \<lparr>pol_name = ''Users can read their own roles'', pol_table = T_user_roles,
      pol_for = Some SELECT, pol_to = [authenticated], pol_using = E_user_id_eq_uid,
      pol_with_check = None\<rparr>,
     \<lparr>pol_name = ''Admins can read all user roles'', pol_table = T_user_roles,
      pol_for = Some SELECT, pol_to = [authenticated], pol_using = E_is_admin,
      pol_with_check = None\<rparr>,
     \<lparr>pol_name = ''Super admins can manage user roles'', pol_table = T_user_roles,
      pol_for = None, pol_to = [authenticated], pol_using = E_can_manage_roles,
      pol_with_check = Some E_can_manage_roles\<rparr>,
     \<lparr>pol_name = ''Admins can view all bookings'', pol_table = T_bookings,
      pol_for = Some SELECT, pol_to = [authenticated], pol_using = E_is_admin,
      pol_with_check = None\<rparr>,
     \<lparr>pol_name = ''Admins can update bookings'', pol_table = T_bookings,
      pol_for = Some UPDATE, pol_to = [authenticated], pol_using = E_is_admin,
      pol_with_check = None\<rparr>,
     \<lparr>pol_name = ''Admins can view all yoga queries'', pol_table = T_yoga_queries,
      pol_for = Some SELECT, pol_to = [authenticated], pol_using = E_is_admin,
      pol_with_check = None\<rparr>,
     \<lparr>pol_name = ''Admins can update yoga queries'', pol_table = T_yoga_queries,
      pol_for = Some UPDATE, pol_to = [authenticated], pol_using = E_is_admin,
      pol_with_check = None\<rparr>,
     \<lparr>pol_name = ''Admins can view all contact messages'', pol_table = T_contact_messages,
      pol_for = Some SELECT, pol_to = [authenticated], pol_using = E_is_admin,
      pol_with_check = None\<rparr>,
     \<lparr>pol_name = ''Admins can update contact messages'', pol_table = T_contact_messages,
      pol_for = Some UPDATE, pol_to = [authenticated], pol_using = E_is_admin,
      pol_with_check = None\<rparr>,
     \<lparr>pol_name = ''Content creators can manage articles'', pol_table = T_articles,
      pol_for = None, pol_to = [authenticated],
      pol_using = E_or (E_has_role ''mantra_curator'') E_is_admin,
      pol_with_check = Some (E_or (E_has_role ''mantra_curator'') E_is_admin)\<rparr> ]"

text \<open>
  Evaluation of a policy expression for a caller and a row; \<open>row_uid\<close> is the row's
  \<^verbatim>\<open>user_id\<close> column (NULL on a table without one).
\<close>

fun eval_expr :: "database \<Rightarrow> session \<Rightarrow> uuid option \<Rightarrow> pol_expr \<Rightarrow> bool" where
  "eval_expr db s row_uid E_true = True"
| "eval_expr db s row_uid E_can_manage_roles = can_manage_roles db s"
| "eval_expr db s row_uid E_is_admin = is_admin db s"
| "eval_expr db s row_uid (E_has_role n) = has_role db s n"
| "eval_expr db s row_uid E_user_id_eq_uid = (row_uid \<noteq> None \<and> row_uid = auth_uid s)"
| "eval_expr db s row_uid (E_or a b) = (eval_expr db s row_uid a \<or> eval_expr db s row_uid b)"

definition current_role :: "session \<Rightarrow> pg_role" where
  "current_role s = (case s of None \<Rightarrow> anon | Some u \<Rightarrow> authenticated)"

definition applies :: "policy \<Rightarrow> table \<Rightarrow> command \<Rightarrow> session \<Rightarrow> bool" where
  "applies p t c s =
     (pol_table p = t \<and> (pol_for p = None \<or> pol_for p = Some c)
      \<and> current_role s \<in> set (pol_to p))"

text \<open>
  Policies are permissive: a row passes when some applicable policy's expression holds,
  and no row passes when none applies.
\<close>

definition rls_using ::
  "policy list \<Rightarrow> database \<Rightarrow> session \<Rightarrow> table \<Rightarrow> command \<Rightarrow> uuid option \<Rightarrow> bool" where
  "rls_using ps db s t c row_uid =
     list_ex (\<lambda>p. applies p t c s \<and> eval_expr db s row_uid (pol_using p)) ps"

definition rls_with_check ::
  "policy list \<Rightarrow> database \<Rightarrow> session \<Rightarrow> table \<Rightarrow> command \<Rightarrow> uuid option \<Rightarrow> bool" where
  "rls_with_check ps db s t c row_uid =
     list_ex (\<lambda>p. applies p t c s \<and> eval_expr db s row_uid
        (case pol_with_check p of Some e \<Rightarrow> e | None \<Rightarrow> pol_using p)) ps"

text \<open>
  The rows an \<^verbatim>\<open>UPDATE\<close> or \<^verbatim>\<open>DELETE\<close> with a \<^verbatim>\<open>WHERE\<close> clause can touch: those the caller
  may read and may change.
\<close>

definition rls_target ::
  "policy list \<Rightarrow> database \<Rightarrow> session \<Rightarrow> table \<Rightarrow> command \<Rightarrow> uuid option \<Rightarrow> bool" where
  "rls_target ps db s t c row_uid =
     (rls_using ps db s t SELECT row_uid \<and> rls_using ps db s t c row_uid)"

section \<open>Statements on the role tables\<close>

text \<open>
  What a request can fail with: PostgREST's PGRST116 (\<^verbatim>\<open>.single()\<close> did not get exactly
  one row), a row level security violation (42501), a unique or primary key violation
  (23505), a foreign key violation (23503) and a not-null violation (23502).
\<close>

datatype pg_error =
  PGRST116 | RlsViolation | UniqueViolation | ForeignKeyViolation | NotNullViolation

definition single :: "'a list \<Rightarrow> pg_error + 'a" where
  "single rows = (case rows of [] \<Rightarrow> Inl PGRST116 | [r] \<Rightarrow> Inr r | r # r' # rest \<Rightarrow> Inl PGRST116)"

text \<open>\<^verbatim>\<open>PRIMARY KEY (id)\<close> and \<^verbatim>\<open>UNIQUE (name)\<close> of \<^verbatim>\<open>roles\<close>.\<close>

definition roles_unique :: "role_row list \<Rightarrow> bool" where
  "roles_unique rs = (distinct (map r_id rs) \<and> distinct (map r_name rs))"

text \<open>\<^verbatim>\<open>PRIMARY KEY (user_id, role_id)\<close> of \<^verbatim>\<open>user_roles\<close>.\<close>

definition ur_key :: "user_role_row \<Rightarrow> uuid \<times> uuid" where
  "ur_key ur = (ur_user_id ur, ur_role_id ur)"

definition user_roles_pk :: "user_role_row list \<Rightarrow> bool" where
  "user_roles_pk urs = distinct (map ur_key urs)"

text \<open>
  The three \<^verbatim>\<open>REFERENCES\<close> of \<^verbatim>\<open>user_roles\<close>: \<^verbatim>\<open>user_id\<close> and \<^verbatim>\<open>assigned_by\<close> to
  \<^verbatim>\<open>auth.users(id)\<close>, \<^verbatim>\<open>role_id\<close> to \<^verbatim>\<open>roles(id)\<close>. A NULL \<^verbatim>\<open>assigned_by\<close> references
  nothing.
\<close>

definition user_role_fk :: "role_row list \<Rightarrow> auth_user list \<Rightarrow> user_role_row \<Rightarrow> bool" where
  "user_role_fk rs us ur =
     (ur_user_id ur \<in> set (map u_id us)
      \<and> ur_role_id ur \<in> set (map r_id rs)
      \<and> (case ur_assigned_by ur of None \<Rightarrow> True | Some a \<Rightarrow> a \<in> set (map u_id us)))"

text \<open>
  The statements a caller can send for the two tables. An \<^verbatim>\<open>UPDATE\<close> or \<^verbatim>\<open>DELETE\<close>
  carries its \<^verbatim>\<open>WHERE\<close> clause as a predicate on rows, an \<^verbatim>\<open>UPDATE\<close> its \<^verbatim>\<open>SET\<close> clause
  as a function on rows.
\<close>

datatype stmt =
    Insert_roles role_row
  | Update_roles "role_row \<Rightarrow> bool" "role_row \<Rightarrow> role_row"
  | Delete_roles "role_row \<Rightarrow> bool"
  | Insert_user_roles user_role_row
  | Update_user_roles "user_role_row \<Rightarrow> bool" "user_role_row \<Rightarrow> user_role_row"
  | Delete_user_roles "user_role_row \<Rightarrow> bool"

text \<open>
  Execution under row level security with the constraints of the schema.

  An \<^verbatim>\<open>UPDATE\<close> or \<^verbatim>\<open>DELETE\<close> scans the rows the table had when the statement began,
  in order. The policy functions are volatile, so they are evaluated anew for every row
  and see what the statement has done to the rows before it: in the scans below
  \<open>kept\<close> are the rows already passed, as the statement leaves them, and the policies
  are evaluated on the table \<open>kept @ row # rest\<close>. A row the policies hide is silently
  skipped. For an \<^verbatim>\<open>UPDATE\<close> the \<^verbatim>\<open>WITH CHECK\<close> of the new row is tested before its
  unique constraints, and these at once, against the other rows as they are then.
  Foreign keys are checked at the end of the statement: deleting a role cascades to its
  assignments (\<^verbatim>\<open>ON DELETE CASCADE\<close>), a reference that was satisfied must not be left
  dangling by a changed role id, and a changed reference of an assignment must be
  satisfied. A failed statement leaves the database as it was.
\<close>

fun delete_roles_scan ::
  "database \<Rightarrow> session \<Rightarrow> (role_row \<Rightarrow> bool) \<Rightarrow> role_row list \<Rightarrow> uuid list \<Rightarrow> role_row list
     \<Rightarrow> role_row list \<times> uuid list" where
  "delete_roles_scan db s wh kept gone [] = (kept, gone)"
| "delete_roles_scan db s wh kept gone (r # rest) =
     (if rls_target policies (db\<lparr>roles := kept @ r # rest\<rparr>) s T_roles DELETE None \<and> wh r
      then delete_roles_scan db s wh kept (gone @ [r_id r]) rest
      else delete_roles_scan db s wh (kept @ [r]) gone rest)"

fun update_roles_scan ::
  "database \<Rightarrow> session \<Rightarrow> (role_row \<Rightarrow> bool) \<Rightarrow> (role_row \<Rightarrow> role_row) \<Rightarrow> role_row list
     \<Rightarrow> role_row list \<Rightarrow> pg_error + role_row list" where
  "update_roles_scan db s wh upd kept [] = Inr kept"
| "update_roles_scan db s wh upd kept (r # rest) =
     (if rls_target policies (db\<lparr>roles := kept @ r # rest\<rparr>) s T_roles UPDATE None \<and> wh r
      then if \<not> rls_with_check policies (db\<lparr>roles := kept @ r # rest\<rparr>) s T_roles UPDATE None
        then Inl RlsViolation
        else if r_id (upd r) \<in> set (map r_id (kept @ rest))
                \<or> r_name (upd r) \<in> set (map r_name (kept @ rest)) then Inl UniqueViolation
        else update_roles_scan db s wh upd (kept @ [upd r]) rest
      else update_roles_scan db s wh upd (kept @ [r]) rest)"

fun delete_user_roles_scan ::
  "database \<Rightarrow> session \<Rightarrow> (user_role_row \<Rightarrow> bool) \<Rightarrow> user_role_row list
     \<Rightarrow> user_role_row list \<Rightarrow> user_role_row list" where
  "delete_user_roles_scan db s wh kept [] = kept"
| "delete_user_roles_scan db s wh kept (ur # rest) =
     (if rls_target policies (db\<lparr>user_roles := kept @ ur # rest\<rparr>) s T_user_roles DELETE
           (Some (ur_user_id ur)) \<and> wh ur
      then delete_user_roles_scan db s wh kept rest
      else delete_user_roles_scan db s wh (kept @ [ur]) rest)"

fun update_user_roles_scan ::
  "database \<Rightarrow> session \<Rightarrow> (user_role_row \<Rightarrow> bool) \<Rightarrow> (user_role_row \<Rightarrow> user_role_row)
     \<Rightarrow> user_role_row list \<Rightarrow> user_role_row list \<Rightarrow> pg_error + user_role_row list" where
  "update_user_roles_scan db s wh upd kept [] = Inr kept"
| "update_user_roles_scan db s wh upd kept (ur # rest) =
     (if rls_target policies (db\<lparr>user_roles := kept @ ur # rest\<rparr>) s T_user_roles UPDATE
           (Some (ur_user_id ur)) \<and> wh ur
      then if \<not> rls_with_check policies (db\<lparr>user_roles := kept @ ur # rest\<rparr>) s T_user_roles
                  UPDATE (Some (ur_user_id (upd ur)))
        then Inl RlsViolation
        else if ur_key (upd ur) \<in> set (map ur_key (kept @ rest)) then Inl UniqueViolation
        else update_user_roles_scan db s wh upd (kept @ [upd ur]) rest
      else update_user_roles_scan db s wh upd (kept @ [ur]) rest)"

text \<open>
  The references of an updated assignment that the statement has changed; \<open>old\<close> is the
  row before the statement.
\<close>

definition user_role_fk_changed ::
  "role_row list \<Rightarrow> auth_user list \<Rightarrow> user_role_row \<Rightarrow> user_role_row \<Rightarrow> bool" where
  "user_role_fk_changed rs us old new =
     ((if ur_user_id new = ur_user_id old then True else ur_user_id new \<in> set (map u_id us))
      \<and> (if ur_role_id new = ur_role_id old then True else ur_role_id new \<in> set (map r_id rs))
      \<and> (if ur_assigned_by new = ur_assigned_by old then True
          else (case ur_assigned_by new of None \<Rightarrow> True | Some a \<Rightarrow> a \<in> set (map u_id us))))"

fun exec :: "database \<Rightarrow> session \<Rightarrow> stmt \<Rightarrow> pg_error + database" where
  "exec db s (Insert_roles row) =
     (if \<not> rls_with_check policies db s T_roles INSERT None then Inl RlsViolation
      else if r_id row \<in> set (map r_id (roles db))
              \<or> r_name row \<in> set (map r_name (roles db)) then Inl UniqueViolation
      else Inr (db\<lparr>roles := roles db @ [row]\<rparr>))"
| "exec db s (Update_roles wh upd) =
     (case update_roles_scan db s wh upd [] (roles db) of
        Inl e \<Rightarrow> Inl e
      | Inr rs' \<Rightarrow>
          if \<not> list_all (\<lambda>ur. if ur_role_id ur \<in> set (map r_id (roles db))
                               then ur_role_id ur \<in> set (map r_id rs') else True)
                 (user_roles db)
          then Inl ForeignKeyViolation
          else Inr (db\<lparr>roles := rs'\<rparr>))"
| "exec db s (Delete_roles wh) =
     (case delete_roles_scan db s wh [] [] (roles db) of
        (rs', gone) \<Rightarrow>
          Inr (db\<lparr>roles := rs',
                 user_roles := filter (\<lambda>ur. ur_role_id ur \<notin> set gone) (user_roles db)\<rparr>))"
| "exec db s (Insert_user_roles row) =
     (if \<not> rls_with_check policies db s T_user_roles INSERT (Some (ur_user_id row))
        then Inl RlsViolation
      else if ur_key row \<in> set (map ur_key (user_roles db)) then Inl UniqueViolation
      else if \<not> user_role_fk (roles db) (auth_users db) row then Inl ForeignKeyViolation
      else Inr (db\<lparr>user_roles := user_roles db @ [row]\<rparr>))"
| "exec db s (Update_user_roles wh upd) =
     (case update_user_roles_scan db s wh upd [] (user_roles db) of
        Inl e \<Rightarrow> Inl e
      | Inr urs' \<Rightarrow>
          if \<not> list_all (\<lambda>(old, new). user_role_fk_changed (roles db) (auth_users db) old new)
                 (zip (user_roles db) urs')
          then Inl ForeignKeyViolation
          else Inr (db\<lparr>user_roles := urs'\<rparr>))"
| "exec db s (Delete_user_roles wh) =
     Inr (db\<lparr>user_roles := delete_user_roles_scan db s wh [] (user_roles db)\<rparr>)"

text \<open>
  \<^verbatim>\<open>supabase.from('roles').select('id').eq('name', roleName).single()\<close>: the rows the
  caller may read whose name is \<open>roleName\<close>; exactly one, or PGRST116.
\<close>

definition select_role_id :: "database \<Rightarrow> session \<Rightarrow> string \<Rightarrow> pg_error + uuid" where
  "select_role_id db s roleName =
     map_sum id r_id (single (filter (\<lambda>r. rls_using policies db s T_roles SELECT None
        \<and> r_name r = roleName) (roles db)))"

text \<open>
  \<^verbatim>\<open>INSERT INTO user_roles (user_id, role_id) VALUES (..) ON CONFLICT (user_id, role_id)
  DO NOTHING\<close> as the migration and \<^verbatim>\<open>assign_default_role()\<close> run it: by the owner of
  the tables, whom row level security does not bind.
\<close>

definition insert_on_conflict_do_nothing :: "database \<Rightarrow> user_role_row \<Rightarrow> pg_error + database" where
  "insert_on_conflict_do_nothing db row =
     (if ur_key row \<in> set (map ur_key (user_roles db)) then Inr db
      else if \<not> user_role_fk (roles db) (auth_users db) row then Inl ForeignKeyViolation
      else Inr (db\<lparr>user_roles := user_roles db @ [row]\<rparr>))"

section \<open>The migration of the legacy admins and the default role\<close>

text \<open>
  The \<^verbatim>\<open>DO\<close> block of the migration: for each row of \<^verbatim>\<open>admin_users\<close> whose email
  belongs to a user of \<^verbatim>\<open>auth.users\<close>, assign \<^verbatim>\<open>super_admin\<close> when the legacy role is
  \<^verbatim>\<open>'super_admin'\<close> and \<^verbatim>\<open>admin\<close> otherwise. \<^verbatim>\<open>SELECT id INTO v\<close> takes the first row
  and leaves NULL when there is none; a NULL \<^verbatim>\<open>role_id\<close> violates the primary key's
  \<^verbatim>\<open>NOT NULL\<close>.
\<close>

definition role_id_of :: "database \<Rightarrow> string \<Rightarrow> uuid option" where
  "role_id_of db n = map_option r_id (find (\<lambda>r. r_name r = n) (roles db))"

fun migrate_loop ::
  "uuid option \<Rightarrow> uuid option \<Rightarrow> admin_user_row list \<Rightarrow> database \<Rightarrow> pg_error + database" where
  "migrate_loop super_admin_role_id admin_role_id [] db = Inr db"
| "migrate_loop super_admin_role_id admin_role_id (admin_record # rest) db =
     (case map_option u_id (find (\<lambda>u. u_email u = au_email admin_record) (auth_users db)) of
        None \<Rightarrow> migrate_loop super_admin_role_id admin_role_id rest db
      | Some user_id_var \<Rightarrow>
          (case (if au_role admin_record = ''super_admin''
                 then super_admin_role_id else admin_role_id) of
             None \<Rightarrow> Inl NotNullViolation
           | Some rid \<Rightarrow>
               (case insert_on_conflict_do_nothing db
                  \<lparr>ur_user_id = user_id_var, ur_role_id = rid, ur_assigned_by = None\<rparr> of
                  Inl e \<Rightarrow> Inl e
                | Inr db' \<Rightarrow> migrate_loop super_admin_role_id admin_role_id rest db')))"

definition migrate_admin_users :: "database \<Rightarrow> pg_error + database" where
  "migrate_admin_users db =
     migrate_loop (role_id_of db ''super_admin'') (role_id_of db ''admin'') (admin_users db) db"

text \<open>
  The body of \<^verbatim>\<open>assign_default_role()\<close> (part_002) for a new user \<open>new\<close>: assign
  \<^verbatim>\<open>yogi_in_training\<close> when the catalog has it.
\<close>

definition assign_default_role :: "database \<Rightarrow> auth_user \<Rightarrow> pg_error + database" where
  "assign_default_role db new =
     (case role_id_of db ''yogi_in_training'' of
        None \<Rightarrow> Inr db
      | Some default_role_id \<Rightarrow>
          insert_on_conflict_do_nothing db
            \<lparr>ur_user_id = u_id new, ur_role_id = default_role_id, ur_assigned_by = None\<rparr>)"

section \<open>The client hook \<^verbatim>\<open>useUserRoles\<close>\<close>

record UserRole =
  role_name :: string

text \<open>
  The answer of \<^verbatim>\<open>supabase.rpc('get_user_roles')\<close>: an error, or the data, which may be
  null.
\<close>

datatype rpc_result = RpcError string | RpcData "UserRole list option"

record hook_state =
  st_roles :: "string list"
  st_loading :: bool
  st_error :: "string option"

definition initial_state :: hook_state where
  "initial_state = \<lparr>st_roles = [], st_loading = True, st_error = None\<rparr>"

text \<open>
  \<^verbatim>\<open>fetchUserRoles\<close>, from its first assignment to the end of its \<^verbatim>\<open>finally\<close>: an error
  of the call is thrown into the \<^verbatim>\<open>catch\<close>, which records the message and empties the
  roles.
\<close>

definition fetchUserRoles :: "rpc_result \<Rightarrow> hook_state \<Rightarrow> hook_state" where
  "fetchUserRoles res st =
     (case res of
        RpcError message \<Rightarrow> st\<lparr>st_roles := [], st_loading := False, st_error := Some message\<rparr>
      | RpcData data \<Rightarrow>
          st\<lparr>st_roles := (case data of None \<Rightarrow> [] | Some rows \<Rightarrow> map role_name rows),
             st_loading := False, st_error := None\<rparr>)"

text \<open>The call as a reachable database answers it for the caller \<open>s\<close>.\<close>

definition rpc_get_user_roles :: "database \<Rightarrow> session \<Rightarrow> rpc_result" where
  "rpc_get_user_roles db s =
     RpcData (Some (map (\<lambda>n. \<lparr>role_name = n\<rparr>) (get_user_roles db s)))"

text \<open>The effect on \<^verbatim>\<open>[user]\<close>: without a user the roles are emptied and nothing is fetched.\<close>

definition useEffect_user :: "session \<Rightarrow> rpc_result \<Rightarrow> hook_state \<Rightarrow> hook_state" where
  "useEffect_user user res st =
     (case user of
        None \<Rightarrow> st\<lparr>st_roles := [], st_loading := False\<rparr>
      | Some u \<Rightarrow> fetchUserRoles res st)"

definition hasRole :: "hook_state \<Rightarrow> string \<Rightarrow> bool" where
  "hasRole st roleName = (roleName \<in> set (st_roles st))"

definition hasAnyRole :: "hook_state \<Rightarrow> string list \<Rightarrow> bool" where
  "hasAnyRole st roleNames = list_ex (\<lambda>roleName. roleName \<in> set (st_roles st)) roleNames"

definition isAdmin :: "hook_state \<Rightarrow> bool" where
  "isAdmin st = hasAnyRole st [''admin'', ''super_admin'']"

definition isSuperAdmin :: "hook_state \<Rightarrow> bool" where
  "isSuperAdmin st = hasRole st ''super_admin''"

text \<open>
  What a render of \<^verbatim>\<open>useUserRoles(user)\<close> returns when the state of the hook is \<open>st\<close>.
  The predicates close over the roles of the state; the user enters only the effect,
  which runs after the render, and \<^verbatim>\<open>assignRole\<close> and \<^verbatim>\<open>removeRole\<close>. The two
  parameterless predicates are given by their value.
\<close>

record hook_result =
  res_roles :: "string list"
  res_loading :: bool
  res_error :: "string option"
  res_hasRole :: "string \<Rightarrow> bool"
  res_hasAnyRole :: "string list \<Rightarrow> bool"
  res_isAdmin :: bool
  res_isSuperAdmin :: bool

definition useUserRoles :: "session \<Rightarrow> hook_state \<Rightarrow> hook_result" where
  "useUserRoles user st =
     \<lparr>res_roles = st_roles st, res_loading = st_loading st, res_error = st_error st,
      res_hasRole = hasRole st, res_hasAnyRole = hasAnyRole st,
      res_isAdmin = isAdmin st, res_isSuperAdmin = isSuperAdmin st\<rparr>"

text \<open>
  \<^verbatim>\<open>assignRole\<close> and \<^verbatim>\<open>removeRole\<close> run against the database with the session of the
  hook's user; every error of a request is rethrown to the caller. The roles of the hook
  are fetched again when the target is the current user.
\<close>

definition assignRole ::
  "session \<Rightarrow> uuid \<Rightarrow> string \<Rightarrow> database \<times> hook_state
     \<Rightarrow> (pg_error + unit) \<times> database \<times> hook_state" where
  "assignRole user userId roleName w =
     (case w of (db, st) \<Rightarrow>
       (case select_role_id db user roleName of
          Inl roleError \<Rightarrow> (Inl roleError, db, st)
        | Inr role_id \<Rightarrow>
            (case exec db user (Insert_user_roles
                    \<lparr>ur_user_id = userId, ur_role_id = role_id, ur_assigned_by = None\<rparr>) of
               Inl error \<Rightarrow> (Inl error, db, st)
             | Inr db' \<Rightarrow>
                 (Inr (), db',
                  if Some userId = auth_uid user
                  then fetchUserRoles (rpc_get_user_roles db' user) st else st))))"

definition removeRole ::
  "session \<Rightarrow> uuid \<Rightarrow> string \<Rightarrow> database \<times> hook_state
     \<Rightarrow> (pg_error + unit) \<times> database \<times> hook_state" where
  "removeRole user userId roleName w =
     (case w of (db, st) \<Rightarrow>
       (case select_role_id db user roleName of
          Inl roleError \<Rightarrow> (Inl roleError, db, st)
        | Inr role_id \<Rightarrow>
            (case exec db user (Delete_user_roles
                    (\<lambda>ur. ur_user_id ur = userId \<and> ur_role_id ur = role_id)) of
               Inl error \<Rightarrow> (Inl error, db, st)
             | Inr db' \<Rightarrow>
                 (Inr (), db',
                  if Some userId = auth_uid user
                  then fetchUserRoles (rpc_get_user_roles db' user) st else st))))"

section \<open>The handlers of \<^verbatim>\<open>RoleManagement\<close>\<close>

text \<open>
  \<^verbatim>\<open>handleAssignRole\<close> and \<^verbatim>\<open>handleRemoveRole\<close> look the role up in the catalog the
  component has loaded (\<open>catalog\<close>), return at once when it is not there, and turn the
  outcome of the request into an alert; they never throw.
\<close>

datatype ui_outcome = Returned | Alert string

definition handleAssignRole ::
  "session \<Rightarrow> role_row list \<Rightarrow> uuid \<Rightarrow> string \<Rightarrow> database \<Rightarrow> ui_outcome \<times> database" where
  "handleAssignRole user catalog userId roleName db =
     (case find (\<lambda>r. r_name r = roleName) catalog of
        None \<Rightarrow> (Returned, db)
      | Some role \<Rightarrow>
          (case exec db user (Insert_user_roles
                  \<lparr>ur_user_id = userId, ur_role_id = r_id role, ur_assigned_by = None\<rparr>) of
             Inl error \<Rightarrow> (Alert ''Failed to assign role'', db)
           | Inr db' \<Rightarrow> (Alert ''Role assigned successfully!'', db')))"

definition handleRemoveRole ::
  "session \<Rightarrow> role_row list \<Rightarrow> uuid \<Rightarrow> string \<Rightarrow> database \<Rightarrow> ui_outcome \<times> database" where
  "handleRemoveRole user catalog userId roleName db =
     (case find (\<lambda>r. r_name r = roleName) catalog of
        None \<Rightarrow> (Returned, db)
      | Some role \<Rightarrow>
          (case exec db user (Delete_user_roles
                  (\<lambda>ur. ur_user_id ur = userId \<and> ur_role_id ur = r_id role)) of
             Inl error \<Rightarrow> (Alert ''Failed to remove role'', db)
           | Inr db' \<Rightarrow> (Alert ''Role removed successfully!'', db')))"

section \<open>Reachable states of the store\<close>

text \<open>
  The states of the database from the creation of \<^verbatim>\<open>user_roles\<close> (empty) on: every
  statement a caller sends for the two role tables, the calls of the hook and of the
  handlers, the migration block, the default role, and any change of the other tables.
  A deleted user takes its assignments along (\<^verbatim>\<open>ON DELETE CASCADE\<close>).
\<close>

inductive reachable :: "database \<Rightarrow> bool" where
  created: "user_roles db = [] \<Longrightarrow> reachable db"
| statement: "reachable db \<Longrightarrow> exec db s q = Inr db' \<Longrightarrow> reachable db'"
| assign: "reachable db \<Longrightarrow> assignRole s userId roleName (db, st) = (res, db', st')
     \<Longrightarrow> reachable db'"
| remove: "reachable db \<Longrightarrow> removeRole s userId roleName (db, st) = (res, db', st')
     \<Longrightarrow> reachable db'"
| handle_assign: "reachable db \<Longrightarrow> handleAssignRole s catalog userId roleName db = (out, db')
     \<Longrightarrow> reachable db'"
| handle_remove: "reachable db \<Longrightarrow> handleRemoveRole s catalog userId roleName db = (out, db')
     \<Longrightarrow> reachable db'"
| migration: "reachable db \<Longrightarrow> migrate_admin_users db = Inr db' \<Longrightarrow> reachable db'"
| default_role: "reachable db \<Longrightarrow> assign_default_role db new = Inr db' \<Longrightarrow> reachable db'"
| legacy_admins: "reachable db \<Longrightarrow> reachable (db\<lparr>admin_users := as\<rparr>)"
| new_user: "reachable db \<Longrightarrow> reachable (db\<lparr>auth_users := auth_users db @ [u]\<rparr>)"
| deleted_user: "reachable db \<Longrightarrow>
     reachable (db\<lparr>auth_users := filter (\<lambda>u. u_id u \<noteq> uid) (auth_users db),
                   user_roles := filter (\<lambda>ur. ur_user_id ur \<noteq> uid) (user_roles db)\<rparr>)"

section \<open>Example data\<close>

text \<open>
  The predefined roles of the migration's \<^verbatim>\<open>INSERT INTO roles (name, description)\<close>, a
  catalog that holds them under example ids, and a database with four users: a super
  admin, a holder of \<^verbatim>\<open>mantra_curator\<close> only, a legacy admin without assignment, and a
  holder of \<^verbatim>\<open>admin\<close> and \<^verbatim>\<open>mantra_curator\<close>.
\<close>

definition predefined_roles :: "(string \<times> string) list" where
  "predefined_roles =
   [ (''super_admin'', ''Complete platform control and configuration''),
     (''admin'', ''Site content management and moderation''),
     (''yoga_acharya'', ''Create and publish yoga classes/courses''),
     (''mantra_curator'', ''Create and edit blog posts/articles''),
     (''sangha_guide'', ''Monitor community discussions and moderate content''),
     (''energy_exchange_lead'', ''Manage product catalog and commerce''),
     (''zen_analyst'', ''Access analytics and generate reports''),
     (''yogi_in_training'', ''Access enrolled courses and participate in community'') ]"

definition other_seven_roles :: "string list" where
  "other_seven_roles = filter (\<lambda>n. n \<noteq> ''super_admin'') (map fst predefined_roles)"

definition example_catalog :: "role_row list" where
  "example_catalog =
     map (\<lambda>(i, n, d). \<lparr>r_id = i, r_name = n, r_description = Some d\<rparr>)
       (zip [''r1'', ''r2'', ''r3'', ''r4'', ''r5'', ''r6'', ''r7'', ''r8''] predefined_roles)"

definition root_user :: auth_user where
  "root_user = \<lparr>u_id = ''u-root'', u_email = ''root@x.com''\<rparr>"

definition curator_user :: auth_user where
  "curator_user = \<lparr>u_id = ''u-curator'', u_email = ''curator@x.com''\<rparr>"

definition legacy_user :: auth_user where
  "legacy_user = \<lparr>u_id = ''u-legacy'', u_email = ''a@x.com''\<rparr>"

definition admin_user :: auth_user where
  "admin_user = \<lparr>u_id = ''u-admin'', u_email = ''admin@x.com''\<rparr>"

definition example_db :: database where
  "example_db =
     \<lparr>roles = example_catalog,
      user_roles =
        [ \<lparr>ur_user_id = ''u-root'', ur_role_id = ''r1'', ur_assigned_by = None\<rparr>,
          \<lparr>ur_user_id = ''u-curator'', ur_role_id = ''r4'', ur_assigned_by = Some ''u-root''\<rparr>,
          \<lparr>ur_user_id = ''u-admin'', ur_role_id = ''r2'', ur_assigned_by = Some ''u-root''\<rparr>,
          \<lparr>ur_user_id = ''u-admin'', ur_role_id = ''r4'', ur_assigned_by = Some ''u-root''\<rparr> ],
      admin_users = [\<lparr>au_email = ''a@x.com'', au_role = ''admin''\<rparr>],
      auth_users = [root_user, curator_user, legacy_user, admin_user]\<rparr>"

text \<open>A statement by which the curator would make itself a super admin.\<close>

definition grant_self_super_admin :: stmt where
  "grant_self_super_admin =
     Insert_user_roles \<lparr>ur_user_id = ''u-curator'', ur_role_id = ''r1'', ur_assigned_by = None\<rparr>"

section \<open>The read policy of articles\<close>

text \<open>
  Modelled from the spec: the policy that makes articles publicly readable. The
  \<^verbatim>\<open>articles\<close> table, the enabling of its row level security and its read policy are
  created by a migration that is not among the sources; section 4.4 of the specification
  gives "Content (articles): read allowed when true (public)". The write policy
  \<^verbatim>\<open>"Content creators can manage articles"\<close> is the one of part_003, which first drops
  the older \<^verbatim>\<open>"Authenticated users can manage articles"\<close>.
\<close>

definition articles_public_read :: policy where
  "articles_public_read =
     \<lparr>pol_name = ''Public read of articles'', pol_table = T_articles, pol_for = Some SELECT,
      pol_to = [authenticated, anon], pol_using = E_true, pol_with_check = None\<rparr>"

definition all_policies :: "policy list" where
  "all_policies = policies @ [articles_public_read]"

section \<open>Further example states\<close>

text \<open>The example after the super admin has assigned \<^verbatim>\<open>zen_analyst\<close> to the curator.\<close>

definition assigned_db :: database where
  "assigned_db = example_db\<lparr>user_roles := user_roles example_db
      @ [\<lparr>ur_user_id = ''u-curator'', ur_role_id = ''r7'', ur_assigned_by = None\<rparr>]\<rparr>"

text \<open>
  The state of the hook once the super admin of the example has signed in and the roles
  have been fetched.
\<close>

definition signed_in_state :: hook_state where
  "signed_in_state =
     useEffect_user (Some root_user) (rpc_get_user_roles example_db (Some root_user))
       initial_state"

text \<open>
  A database before the migration block has run, with three legacy admins of whom one
  has no account, and the database the block leaves.
\<close>

definition bootstrap_db :: database where
  "bootstrap_db =
     \<lparr>roles = example_catalog, user_roles = [],
      admin_users = [\<lparr>au_email = ''root@x.com'', au_role = ''super_admin''\<rparr>,
                     \<lparr>au_email = ''a@x.com'', au_role = ''admin''\<rparr>,
                     \<lparr>au_email = ''gone@x.com'', au_role = ''admin''\<rparr>],
      auth_users = [root_user, curator_user, legacy_user, admin_user]\<rparr>"

definition migrated_db :: database where
  "migrated_db = bootstrap_db\<lparr>user_roles :=
     [ \<lparr>ur_user_id = ''u-root'', ur_role_id = ''r1'', ur_assigned_by = None\<rparr>,
       \<lparr>ur_user_id = ''u-legacy'', ur_role_id = ''r2'', ur_assigned_by = None\<rparr> ]\<rparr>"

lemmas example_defs =
  example_db_def example_catalog_def predefined_roles_def other_seven_roles_def
  root_user_def curator_user_def legacy_user_def admin_user_def

section \<open>The evaluator\<close>

lemma has_role_iff: "has_role db s n \<longleftrightarrow> n \<in> set (get_user_roles db s)"
  by (auto simp: has_role_def get_user_roles_def list_ex_iff)

lemma anon_no_role: "\<not> has_role db None n"
  by (simp add: has_role_def auth_uid_def list_ex_iff)

text \<open>
  The database function \<^verbatim>\<open>is_admin()\<close> is the disjunction of the role check and the
  legacy match.
\<close>

lemma is_admin_iff:
  "is_admin db s \<longleftrightarrow>
     (list_ex (\<lambda>n. n \<in> set (get_user_roles db s)) [''admin'', ''super_admin'']
      \<or> list_ex (\<lambda>a. Some (au_email a) = auth_email s
             \<and> au_role a \<in> set [''admin'', ''super_admin'']) (admin_users db))"
proof -
  have "list_ex (\<lambda>ur. list_ex (\<lambda>r.
           ur_role_id ur = r_id r \<and> Some (ur_user_id ur) = auth_uid s
           \<and> r_name r \<in> set [''admin'', ''super_admin''])
           (roles db)) (user_roles db)
        \<longleftrightarrow> has_role db s ''admin'' \<or> has_role db s ''super_admin''"
    unfolding has_role_def list_ex_iff by (simp only: set_simps insert_iff empty_iff) blast
  then show ?thesis
    by (simp add: is_admin_def has_role_iff)
qed

lemma example_legacy_roles: "get_user_roles example_db (Some legacy_user) = []"
  by (simp add: get_user_roles_def auth_uid_def example_defs)

text \<open>
  C1 (isAdmin is the role check or the legacy match, in the database and in the client).
  The client's \<^verbatim>\<open>isAdmin()\<close> is \<^verbatim>\<open>hasAnyRole(['admin', 'super_admin'])\<close> alone. For the
  user of the example whose email has a legacy entry with role \<^verbatim>\<open>admin\<close> and who holds
  no assignment, the database's \<^verbatim>\<open>is_admin()\<close> is true, the legacy disjunct of the claim
  is true, and the client's \<^verbatim>\<open>isAdmin()\<close> on the freshly fetched roles is false.
\<close>

theorem client_isAdmin_ignores_legacy_entry:
  "is_admin example_db (Some legacy_user)
   \<and> list_ex (\<lambda>a. Some (au_email a) = auth_email (Some legacy_user)
        \<and> au_role a \<in> set [''admin'', ''super_admin'']) (admin_users example_db)
   \<and> \<not> isAdmin (fetchUserRoles (rpc_get_user_roles example_db (Some legacy_user))
          initial_state)"
proof -
  have a: "is_admin example_db (Some legacy_user)"
    by (simp add: is_admin_iff example_legacy_roles)
       (simp add: auth_email_def example_defs)
  have b: "list_ex (\<lambda>a. Some (au_email a) = auth_email (Some legacy_user)
        \<and> au_role a \<in> set [''admin'', ''super_admin'']) (admin_users example_db)"
    by (simp add: auth_email_def example_defs)
  have c: "\<not> isAdmin (fetchUserRoles (rpc_get_user_roles example_db (Some legacy_user))
          initial_state)"
    by (simp add: isAdmin_def hasAnyRole_def fetchUserRoles_def rpc_get_user_roles_def
        example_legacy_roles)
  from a b c show ?thesis by blast
qed

text \<open>
  C4 (who can manage roles). \<^verbatim>\<open>can_manage_roles()\<close> in the database and
  \<^verbatim>\<open>isSuperAdmin()\<close> in the client are true exactly when the held role set contains
  \<^verbatim>\<open>super_admin\<close>; both are false for every role set drawn from the other seven
  predefined roles.
\<close>

theorem can_manage_roles_iff_super_admin:
  "(can_manage_roles db s \<longleftrightarrow> ''super_admin'' \<in> set (get_user_roles db s))
   \<and> (isSuperAdmin st \<longleftrightarrow> ''super_admin'' \<in> set (st_roles st))
   \<and> (set (get_user_roles db s) \<subseteq> set other_seven_roles \<longrightarrow> \<not> can_manage_roles db s)
   \<and> (set (st_roles st) \<subseteq> set other_seven_roles \<longrightarrow> \<not> isSuperAdmin st)"
proof -
  have "''super_admin'' \<notin> set other_seven_roles"
    by (simp add: other_seven_roles_def)
  then show ?thesis
    by (auto simp: can_manage_roles_def has_role_iff isSuperAdmin_def hasRole_def)
qed

lemma example_admin_roles:
  "get_user_roles example_db (Some admin_user) = [''admin'', ''mantra_curator'']"
  by (simp add: get_user_roles_def auth_uid_def example_defs)

theorem can_manage_roles_iff_super_admin_witness:
  "set (get_user_roles example_db (Some admin_user)) \<subseteq> set other_seven_roles
   \<and> \<not> can_manage_roles example_db (Some admin_user)
   \<and> set (st_roles (fetchUserRoles (rpc_get_user_roles example_db (Some admin_user))
          initial_state)) \<subseteq> set other_seven_roles
   \<and> \<not> isSuperAdmin (fetchUserRoles (rpc_get_user_roles example_db (Some admin_user))
          initial_state)"
proof -
  have a: "set (get_user_roles example_db (Some admin_user)) \<subseteq> set other_seven_roles"
    by (simp add: example_admin_roles) (simp add: example_defs)
  have b: "set (st_roles (fetchUserRoles (rpc_get_user_roles example_db (Some admin_user))
          initial_state)) \<subseteq> set other_seven_roles"
    by (simp add: fetchUserRoles_def rpc_get_user_roles_def example_admin_roles comp_def)
       (simp add: example_defs)
  from a b show ?thesis
    using can_manage_roles_iff_super_admin [of example_db "Some admin_user"
        "fetchUserRoles (rpc_get_user_roles example_db (Some admin_user)) initial_state"]
    by blast
qed

section \<open>Who may change the role tables\<close>

lemma rls_write_using:
  "c \<noteq> SELECT \<Longrightarrow> t = T_roles \<or> t = T_user_roles \<Longrightarrow>
   rls_using policies db s t c uid = can_manage_roles db s"
  using anon_no_role [of db "''super_admin''"]
  by (cases c; cases s)
     (auto simp: rls_using_def policies_def applies_def current_role_def can_manage_roles_def)

lemma rls_write_check:
  "c \<noteq> SELECT \<Longrightarrow> t = T_roles \<or> t = T_user_roles \<Longrightarrow>
   rls_with_check policies db s t c uid = can_manage_roles db s"
  using anon_no_role [of db "''super_admin''"]
  by (cases c; cases s)
     (auto simp: rls_with_check_def policies_def applies_def current_role_def
        can_manage_roles_def)

lemma manager_reads:
  "t = T_roles \<or> t = T_user_roles \<Longrightarrow> can_manage_roles db s
   \<Longrightarrow> rls_using policies db s t SELECT uid"
  using anon_no_role [of db "''super_admin''"]
  by (cases s)
     (auto simp: rls_using_def policies_def applies_def current_role_def can_manage_roles_def)

lemma rls_target_write:
  "c \<noteq> SELECT \<Longrightarrow> t = T_roles \<or> t = T_user_roles \<Longrightarrow>
   rls_target policies db s t c uid = can_manage_roles db s"
  using manager_reads [of t db s uid] by (auto simp: rls_target_def rls_write_using)

text \<open>A caller who cannot manage roles when a scan begins touches no row.\<close>

lemma delete_roles_scan_denied:
  "\<not> can_manage_roles (db\<lparr>roles := kept @ rest\<rparr>) s
   \<Longrightarrow> delete_roles_scan db s wh kept gone rest = (kept @ rest, gone)"
  by (induction rest arbitrary: kept) (simp_all add: rls_target_write)

lemma update_roles_scan_denied:
  "\<not> can_manage_roles (db\<lparr>roles := kept @ rest\<rparr>) s
   \<Longrightarrow> update_roles_scan db s wh upd kept rest = Inr (kept @ rest)"
  by (induction rest arbitrary: kept) (simp_all add: rls_target_write)

lemma delete_user_roles_scan_denied:
  "\<not> can_manage_roles (db\<lparr>user_roles := kept @ rest\<rparr>) s
   \<Longrightarrow> delete_user_roles_scan db s wh kept rest = kept @ rest"
  by (induction rest arbitrary: kept) (simp_all add: rls_target_write)

lemma update_user_roles_scan_denied:
  "\<not> can_manage_roles (db\<lparr>user_roles := kept @ rest\<rparr>) s
   \<Longrightarrow> update_user_roles_scan db s wh upd kept rest = Inr (kept @ rest)"
  by (induction rest arbitrary: kept) (simp_all add: rls_target_write)

lemma fk_changed_same: "list_all (\<lambda>(old, new). user_role_fk_changed rs us old new) (zip xs xs)"
  by (auto simp: list_all_iff zip_same user_role_fk_changed_def)

lemma exec_without_super_admin:
  assumes "\<not> can_manage_roles db s"
  shows "exec db s q = Inl RlsViolation \<or> exec db s q = Inr db"
proof (cases q)
  case (Insert_roles row)
  with assms show ?thesis by (simp add: rls_write_check)
next
  case (Update_roles wh upd)
  from assms have "update_roles_scan db s wh upd [] (roles db) = Inr (roles db)"
    using update_roles_scan_denied [where db = db and kept = "[]" and rest = "roles db"] by simp
  with Update_roles show ?thesis by (simp add: list_all_iff)
next
  case (Delete_roles wh)
  from assms have "delete_roles_scan db s wh [] [] (roles db) = (roles db, [])"
    using delete_roles_scan_denied [where db = db and kept = "[]" and rest = "roles db"] by simp
  with Delete_roles show ?thesis by simp
next
  case (Insert_user_roles row)
  with assms show ?thesis by (simp add: rls_write_check)
next
  case (Update_user_roles wh upd)
  from assms have "update_user_roles_scan db s wh upd [] (user_roles db) = Inr (user_roles db)"
    using update_user_roles_scan_denied [where db = db and kept = "[]" and rest = "user_roles db"] by simp
  with Update_user_roles show ?thesis by (simp add: fk_changed_same)
next
  case (Delete_user_roles wh)
  from assms have "delete_user_roles_scan db s wh [] (user_roles db) = user_roles db"
    using delete_user_roles_scan_denied [where db = db and kept = "[]" and rest = "user_roles db"] by simp
  with Delete_user_roles show ?thesis by simp
qed

text \<open>
  The policies are evaluated row by row: when the super admin of the example deletes
  every assignment, the scan removes the super admin's own grant first and then passes
  no further row.
\<close>

lemma delete_all_stops_after_own_grant:
  "exec example_db (Some root_user) (Delete_user_roles (\<lambda>ur. True))
   = Inr (example_db\<lparr>user_roles :=
       [ \<lparr>ur_user_id = ''u-curator'', ur_role_id = ''r4'', ur_assigned_by = Some ''u-root''\<rparr>,
         \<lparr>ur_user_id = ''u-admin'', ur_role_id = ''r2'', ur_assigned_by = Some ''u-root''\<rparr>,
         \<lparr>ur_user_id = ''u-admin'', ur_role_id = ''r4'', ur_assigned_by = Some ''u-root''\<rparr> ]\<rparr>)"
  by (simp add: rls_target_write can_manage_roles_def has_role_def auth_uid_def example_defs)

text \<open>
  C5 (role management is gated by super_admin). For every database state, caller and
  row, the policies let an \<^verbatim>\<open>INSERT\<close>, \<^verbatim>\<open>UPDATE\<close> or \<^verbatim>\<open>DELETE\<close> on \<^verbatim>\<open>roles\<close> or
  \<^verbatim>\<open>user_roles\<close> through exactly when \<^verbatim>\<open>can_manage_roles()\<close> holds; and a statement on
  these tables sent by a caller whose role set lacks \<^verbatim>\<open>super_admin\<close> is either refused
  or changes no row.
\<close>

theorem role_tables_gated_by_can_manage_roles:
  "(c \<noteq> SELECT \<and> (t = T_roles \<or> t = T_user_roles) \<longrightarrow>
      rls_using policies db s t c uid = can_manage_roles db s
      \<and> rls_with_check policies db s t c uid = can_manage_roles db s)
   \<and> (''super_admin'' \<notin> set (get_user_roles db s) \<longrightarrow>
      exec db s q = Inl RlsViolation \<or> exec db s q = Inr db)"
  using exec_without_super_admin [of db s q]
  by (simp add: rls_write_using rls_write_check can_manage_roles_def has_role_iff)

lemma example_curator_roles:
  "get_user_roles example_db (Some curator_user) = [''mantra_curator'']"
  by (simp add: get_user_roles_def auth_uid_def example_defs)

theorem role_tables_gated_by_can_manage_roles_witness:
  "INSERT \<noteq> SELECT \<and> ''super_admin'' \<notin> set (get_user_roles example_db (Some curator_user))
   \<and> \<not> rls_with_check policies example_db (Some curator_user) T_user_roles INSERT
         (Some ''u-curator'')
   \<and> exec example_db (Some curator_user) grant_self_super_admin = Inl RlsViolation"
proof -
  have a: "''super_admin'' \<notin> set (get_user_roles example_db (Some curator_user))"
    by (simp add: example_curator_roles)
  have b: "exec example_db (Some curator_user) grant_self_super_admin \<noteq> Inr example_db"
    using a by (simp add: grant_self_super_admin_def rls_write_check can_manage_roles_def has_role_iff)
  from a b show ?thesis
    using role_tables_gated_by_can_manage_roles [of INSERT T_user_roles example_db
        "Some curator_user" "Some ''u-curator''" grant_self_super_admin]
    by (simp add: can_manage_roles_def has_role_iff)
qed

section \<open>The client evaluator without roles\<close>

text \<open>
  C6 (fail closed). When the call that resolves the roles fails, the hook holds the
  empty role set afterwards: \<^verbatim>\<open>hasRole\<close>, \<^verbatim>\<open>hasAnyRole\<close>, \<^verbatim>\<open>isAdmin\<close> and
  \<^verbatim>\<open>isSuperAdmin\<close> are false for every argument, whatever the roles were before.
\<close>

theorem fetch_failure_fails_closed:
  "st_roles (fetchUserRoles (RpcError message) st) = []
   \<and> st_error (fetchUserRoles (RpcError message) st) = Some message
   \<and> \<not> hasRole (fetchUserRoles (RpcError message) st) N
   \<and> \<not> hasAnyRole (fetchUserRoles (RpcError message) st) names
   \<and> \<not> isAdmin (fetchUserRoles (RpcError message) st)
   \<and> \<not> isSuperAdmin (fetchUserRoles (RpcError message) st)"
  by (simp add: fetchUserRoles_def hasRole_def hasAnyRole_def isAdmin_def isSuperAdmin_def
      list_ex_iff)

text \<open>
  C10 (no user, no role), as the code has it. Once the effect has run for a missing
  user the role set is empty (it is empty initially too), and in that state no role
  predicate of the hook holds, neither on the state nor in what a render returns. What
  a render returns depends on the stored roles alone, whoever the user is.
\<close>

theorem no_user_no_roles:
  "st_roles (useEffect_user None res st) = []
   \<and> st_roles initial_state = []
   \<and> \<not> hasRole (useEffect_user None res st) N
   \<and> \<not> hasAnyRole (useEffect_user None res st) names
   \<and> \<not> isAdmin (useEffect_user None res st)
   \<and> \<not> isSuperAdmin (useEffect_user None res st)
   \<and> res_roles (useUserRoles None (useEffect_user None res st)) = []
   \<and> \<not> res_hasRole (useUserRoles None (useEffect_user None res st)) N
   \<and> \<not> res_hasAnyRole (useUserRoles None (useEffect_user None res st)) names
   \<and> \<not> res_isAdmin (useUserRoles None (useEffect_user None res st))
   \<and> \<not> res_isSuperAdmin (useUserRoles None (useEffect_user None res st))
   \<and> res_hasRole (useUserRoles user st) N = (N \<in> set (st_roles st))
   \<and> res_isSuperAdmin (useUserRoles user st) = (''super_admin'' \<in> set (st_roles st))"
  by (simp add: useUserRoles_def useEffect_user_def initial_state_def hasRole_def
      hasAnyRole_def isAdmin_def isSuperAdmin_def list_ex_iff)

lemma signed_in_roles: "st_roles signed_in_state = [''super_admin'']"
  by (simp add: signed_in_state_def useEffect_user_def fetchUserRoles_def
      rpc_get_user_roles_def get_user_roles_def auth_uid_def example_defs)

text \<open>
  The claim as stated fails: the predicates never look at the user. After the super
  admin of the example has signed out, the render with \<^verbatim>\<open>user = null\<close> that precedes the
  effect still answers from the roles fetched before.
\<close>

theorem signed_out_render_counterexample:
  "res_roles (useUserRoles None signed_in_state) = [''super_admin'']
   \<and> res_hasRole (useUserRoles None signed_in_state) ''super_admin''
   \<and> res_hasAnyRole (useUserRoles None signed_in_state) [''super_admin'']
   \<and> res_isAdmin (useUserRoles None signed_in_state)
   \<and> res_isSuperAdmin (useUserRoles None signed_in_state)"
  by (simp add: useUserRoles_def hasRole_def hasAnyRole_def isAdmin_def isSuperAdmin_def
      signed_in_roles)

section \<open>Assigning and revoking\<close>

lemma roles_readable: "rls_using policies db s T_roles SELECT uid"
  by (cases s) (simp_all add: rls_using_def policies_def applies_def current_role_def)

lemma select_role_id_eq:
  "select_role_id db s N = map_sum id r_id (single (filter (\<lambda>r. r_name r = N) (roles db)))"
  by (simp add: select_role_id_def roles_readable)

lemma select_role_id_unknown:
  "N \<notin> set (map r_name (roles db)) \<Longrightarrow> select_role_id db s N = Inl PGRST116"
proof -
  assume "N \<notin> set (map r_name (roles db))"
  then have "filter (\<lambda>r. r_name r = N) (roles db) = []"
    by (auto simp: filter_empty_conv)
  then show ?thesis by (simp add: select_role_id_eq single_def)
qed

lemma select_role_id_Inr:
  "select_role_id db s N = Inr rid \<Longrightarrow>
   \<exists>r. filter (\<lambda>r. r_name r = N) (roles db) = [r] \<and> r_id r = rid"
  by (auto simp: select_role_id_eq single_def split: list.splits)

lemma select_role_id_Inl:
  "select_role_id db s N = Inl e \<Longrightarrow> e = PGRST116"
  by (auto simp: select_role_id_eq single_def split: list.splits)

lemma filter_distinct_key:
  "distinct (map f xs) \<Longrightarrow> x \<in> set xs \<Longrightarrow> filter (\<lambda>y. f y = f x) xs = [x]"
proof (induction xs)
  case Nil
  then show ?case by simp
next
  case (Cons a xs)
  show ?case
  proof (cases "a = x")
    case True
    from Cons.prems(1) True have "f x \<notin> f ` set xs" by simp
    then have "filter (\<lambda>y. f y = f x) xs = []"
      unfolding filter_empty_conv by (metis imageI)
    with True show ?thesis by simp
  next
    case False
    with Cons show ?thesis by auto
  qed
qed

lemma select_role_id_known:
  assumes "distinct (map r_name (roles db))" and "r \<in> set (roles db)"
  shows "select_role_id db s (r_name r) = Inr (r_id r)"
  using filter_distinct_key [OF assms] by (simp add: select_role_id_eq single_def)

text \<open>Holding a role: the join has a row for it.\<close>

lemma held_iff:
  "N \<in> set (get_user_roles db (Some u)) \<longleftrightarrow>
   (\<exists>ur \<in> set (user_roles db). \<exists>r \<in> set (roles db).
      ur_role_id ur = r_id r \<and> ur_user_id ur = u_id u \<and> r_name r = N)"
  by (auto simp: get_user_roles_def auth_uid_def)

lemma held_key:
  assumes "N \<in> set (get_user_roles db (Some u))" and "select_role_id db s N = Inr rid"
  shows "(u_id u, rid) \<in> set (map ur_key (user_roles db))"
proof -
  from assms(1) obtain ur r where ur: "ur \<in> set (user_roles db)" and r: "r \<in> set (roles db)"
    and j: "ur_role_id ur = r_id r" "ur_user_id ur = u_id u" "r_name r = N"
    by (auto simp: held_iff)
  from select_role_id_Inr [OF assms(2)] obtain r0
    where f: "filter (\<lambda>r. r_name r = N) (roles db) = [r0]" and "r_id r0 = rid" by blast
  from r j(3) have "r \<in> set (filter (\<lambda>r. r_name r = N) (roles db))" by simp
  with f have "r = r0" by simp
  with \<open>r_id r0 = rid\<close> j ur show ?thesis
    by (force simp: ur_key_def)
qed

lemma key_held:
  assumes "(u_id u, rid) \<in> set (map ur_key (user_roles db))"
    and "select_role_id db s N = Inr rid"
  shows "N \<in> set (get_user_roles db (Some u))"
proof -
  from select_role_id_Inr [OF assms(2)] obtain r0
    where f: "filter (\<lambda>r. r_name r = N) (roles db) = [r0]" and i: "r_id r0 = rid" by blast
  then have "r0 \<in> set (filter (\<lambda>r. r_name r = N) (roles db))" by simp
  then have r0: "r0 \<in> set (roles db)" "r_name r0 = N" by auto
  from assms(1) obtain ur where "ur \<in> set (user_roles db)" "ur_user_id ur = u_id u"
    "ur_role_id ur = rid" by (auto simp: ur_key_def)
  with r0 i show ?thesis by (auto simp: held_iff)
qed

lemma exec_insert_user_roles:
  "exec db s (Insert_user_roles row) =
     (if \<not> can_manage_roles db s then Inl RlsViolation
      else if ur_key row \<in> set (map ur_key (user_roles db)) then Inl UniqueViolation
      else if \<not> user_role_fk (roles db) (auth_users db) row then Inl ForeignKeyViolation
      else Inr (db\<lparr>user_roles := user_roles db @ [row]\<rparr>))"
  by (simp add: rls_write_check)

text \<open>
  The \<^verbatim>\<open>DELETE\<close> of \<^verbatim>\<open>removeRole\<close> selects the rows of one key. Deleting one of them
  cannot take the right to manage roles from the caller while another row of the key is
  left, so a caller who can manage roles when the statement begins deletes them all.
\<close>

lemma same_key_keeps_manager:
  assumes "can_manage_roles (db\<lparr>user_roles := kept @ ur # rest\<rparr>) s"
    and "ur' \<in> set rest" and "ur_user_id ur' = ur_user_id ur" and "ur_role_id ur' = ur_role_id ur"
  shows "can_manage_roles (db\<lparr>user_roles := kept @ rest\<rparr>) s"
proof -
  from assms(1) obtain x r where x: "x \<in> set (kept @ ur # rest)" and r: "r \<in> set (roles db)"
    and j: "ur_role_id x = r_id r" "Some (ur_user_id x) = auth_uid s" "r_name r = ''super_admin''"
    unfolding can_manage_roles_def has_role_def list_ex_iff by auto
  show ?thesis
  proof (cases "x = ur")
    case True
    with assms(2-4) j r show ?thesis
      unfolding can_manage_roles_def has_role_def list_ex_iff
      by (auto intro!: bexI [of _ ur'] bexI [of _ r])
  next
    case False
    with x j r show ?thesis
      unfolding can_manage_roles_def has_role_def list_ex_iff
      by (auto intro!: bexI [of _ x] bexI [of _ r])
  qed
qed

lemma delete_user_roles_scan_key:
  assumes "can_manage_roles (db\<lparr>user_roles := kept @ rest\<rparr>) s
     \<or> (\<forall>ur \<in> set rest. \<not> (ur_user_id ur = I \<and> ur_role_id ur = rid))"
  shows "delete_user_roles_scan db s (\<lambda>ur. ur_user_id ur = I \<and> ur_role_id ur = rid) kept rest
     = kept @ filter (\<lambda>ur. \<not> (ur_user_id ur = I \<and> ur_role_id ur = rid)) rest"
  using assms
proof (induction rest arbitrary: kept)
  case Nil
  then show ?case by simp
next
  case (Cons ur rest)
  show ?case
  proof (cases "ur_user_id ur = I \<and> ur_role_id ur = rid")
    case True
    with Cons.prems have cm: "can_manage_roles (db\<lparr>user_roles := kept @ ur # rest\<rparr>) s"
      by auto
    have "can_manage_roles (db\<lparr>user_roles := kept @ rest\<rparr>) s
       \<or> (\<forall>ur \<in> set rest. \<not> (ur_user_id ur = I \<and> ur_role_id ur = rid))"
      using same_key_keeps_manager [OF cm] True by metis
    from Cons.IH [OF this] cm True show ?thesis
      by (simp add: rls_target_write)
  next
    case False
    from Cons.prems False
    have "can_manage_roles (db\<lparr>user_roles := (kept @ [ur]) @ rest\<rparr>) s
       \<or> (\<forall>ur \<in> set rest. \<not> (ur_user_id ur = I \<and> ur_role_id ur = rid))"
      by auto
    from Cons.IH [OF this] False show ?thesis by auto
  qed
qed

lemma exec_delete_user_roles:
  "exec db s (Delete_user_roles (\<lambda>ur. ur_user_id ur = I \<and> ur_role_id ur = rid)) =
     Inr (db\<lparr>user_roles := filter (\<lambda>ur. \<not> (can_manage_roles db s
        \<and> ur_user_id ur = I \<and> ur_role_id ur = rid)) (user_roles db)\<rparr>)"
proof (cases "can_manage_roles db s")
  case True
  then have "can_manage_roles (db\<lparr>user_roles := [] @ user_roles db\<rparr>) s" by simp
  then show ?thesis
    using delete_user_roles_scan_key [where db = db and kept = "[]" and rest = "user_roles db"
        and s = s and I = I and rid = rid] by simp
next
  case False
  then show ?thesis
    using delete_user_roles_scan_denied [where db = db and kept = "[]" and rest = "user_roles db"
        and s = s] by simp
qed

lemma assignRole_unknown:
  "N \<notin> set (map r_name (roles db)) \<Longrightarrow> assignRole s I N (db, st) = (Inl PGRST116, db, st)"
  by (simp add: assignRole_def select_role_id_unknown)

lemma assignRole_held:
  assumes "N \<in> set (get_user_roles db (Some u))"
  shows "\<exists>e. assignRole s (u_id u) N (db, st) = (Inl e, db, st)"
proof (cases "select_role_id db s N")
  case (Inl e)
  then show ?thesis by (simp add: assignRole_def)
next
  case (Inr rid)
  from held_key [OF assms Inr] have "ur_key \<lparr>ur_user_id = u_id u, ur_role_id = rid,
      ur_assigned_by = None\<rparr> \<in> set (map ur_key (user_roles db))"
    by (simp add: ur_key_def)
  with Inr show ?thesis
    by (simp add: assignRole_def exec_insert_user_roles del: exec.simps)
qed

lemma held_role_row:
  "N \<in> set (get_user_roles db (Some u)) \<Longrightarrow> \<exists>r \<in> set (roles db). r_name r = N"
  by (auto simp: held_iff)

lemma assignRole_held_error:
  assumes "N \<in> set (get_user_roles db (Some u))" and "distinct (map r_name (roles db))"
  shows "assignRole s (u_id u) N (db, st) =
    (Inl (if can_manage_roles db s then UniqueViolation else RlsViolation), db, st)"
proof -
  from held_role_row [OF assms(1)] obtain r where r: "r \<in> set (roles db)" "r_name r = N"
    by blast
  from select_role_id_known [OF assms(2) r(1)] r(2)
  have sel: "select_role_id db s N = Inr (r_id r)" by simp
  from held_key [OF assms(1) sel] have "ur_key \<lparr>ur_user_id = u_id u, ur_role_id = r_id r,
      ur_assigned_by = None\<rparr> \<in> set (map ur_key (user_roles db))"
    by (simp add: ur_key_def)
  with sel show ?thesis
    by (simp add: assignRole_def exec_insert_user_roles del: exec.simps)
qed

lemma handleAssignRole_unknown:
  "N \<notin> set (map r_name catalog) \<Longrightarrow> handleAssignRole s catalog I N db = (Returned, db)"
proof -
  assume "N \<notin> set (map r_name catalog)"
  then have "find (\<lambda>r. r_name r = N) catalog = None"
    by (auto simp: find_None_iff)
  then show ?thesis by (simp add: handleAssignRole_def)
qed

lemma find_distinct_key:
  "distinct (map f xs) \<Longrightarrow> x \<in> set xs \<Longrightarrow> find (\<lambda>y. f y = f x) xs = Some x"
  by (induction xs) (auto simp: image_iff)

lemma handleAssignRole_held:
  assumes "N \<in> set (get_user_roles db (Some u))" and "distinct (map r_name (roles db))"
  shows "handleAssignRole s (roles db) (u_id u) N db = (Alert ''Failed to assign role'', db)"
proof -
  from held_role_row [OF assms(1)] obtain r where r: "r \<in> set (roles db)" "r_name r = N"
    by blast
  from find_distinct_key [OF assms(2) r(1)] r(2)
  have fnd: "find (\<lambda>y. r_name y = N) (roles db) = Some r" by simp
  from select_role_id_known [OF assms(2) r(1)] r(2)
  have sel: "select_role_id db s N = Inr (r_id r)" by simp
  from held_key [OF assms(1) sel] have "ur_key \<lparr>ur_user_id = u_id u, ur_role_id = r_id r,
      ur_assigned_by = None\<rparr> \<in> set (map ur_key (user_roles db))"
    by (simp add: ur_key_def)
  with fnd show ?thesis
    by (simp add: handleAssignRole_def exec_insert_user_roles del: exec.simps)
qed

lemma example_root_roles: "get_user_roles example_db (Some root_user) = [''super_admin'']"
  by (simp add: get_user_roles_def auth_uid_def example_defs)

lemma example_root_manages: "can_manage_roles example_db (Some root_user)"
  by (simp add: can_manage_roles_def has_role_iff example_root_roles)

lemma example_names_distinct: "distinct (map r_name (roles example_db))"
  by (simp add: example_defs)

text \<open>
  C2 (assign: unknown role, role already held), as the code has it. \<^verbatim>\<open>assignRole\<close>
  fails with PGRST116 (no single row) when the name is not in the catalog. When the
  identity already holds the role the call is not a silent no-op: it fails, with a
  unique violation when the caller can manage roles and a row level security violation
  otherwise (given the catalog's unique names). In each case the database and the hook's
  state are unchanged. The handler \<^verbatim>\<open>handleAssignRole\<close> reports the failure for a held
  role and returns silently for a name missing from its catalog.
\<close>

theorem assignRole_unknown_or_already_held:
  "(N \<notin> set (map r_name (roles db)) \<longrightarrow> assignRole s I N (db, st) = (Inl PGRST116, db, st))
   \<and> (N \<in> set (get_user_roles db (Some u)) \<longrightarrow>
        (\<exists>e. assignRole s (u_id u) N (db, st) = (Inl e, db, st)))
   \<and> (N \<in> set (get_user_roles db (Some u)) \<and> distinct (map r_name (roles db)) \<longrightarrow>
        assignRole s (u_id u) N (db, st) =
          (Inl (if can_manage_roles db s then UniqueViolation else RlsViolation), db, st)
        \<and> handleAssignRole s (roles db) (u_id u) N db = (Alert ''Failed to assign role'', db))
   \<and> (N \<notin> set (map r_name catalog) \<longrightarrow> handleAssignRole s catalog I N db = (Returned, db))"
  using assignRole_unknown [of N db s I st] assignRole_held [of N db u s st]
    assignRole_held_error [of N db u s st] handleAssignRole_held [of N db u s]
    handleAssignRole_unknown [of N catalog s I db]
  by blast

theorem assignRole_unknown_or_already_held_witness:
  "''guru'' \<notin> set (map r_name (roles example_db))
   \<and> assignRole (Some root_user) ''u-curator'' ''guru'' (example_db, initial_state)
       = (Inl PGRST116, example_db, initial_state)
   \<and> ''mantra_curator'' \<in> set (get_user_roles example_db (Some curator_user))
   \<and> distinct (map r_name (roles example_db))
   \<and> assignRole (Some root_user) (u_id curator_user) ''mantra_curator''
        (example_db, initial_state) = (Inl UniqueViolation, example_db, initial_state)
   \<and> handleAssignRole (Some root_user) (roles example_db) (u_id curator_user)
        ''mantra_curator'' example_db = (Alert ''Failed to assign role'', example_db)
   \<and> handleAssignRole (Some root_user) (roles example_db) ''u-curator'' ''guru'' example_db
       = (Returned, example_db)"
proof -
  have a: "''guru'' \<notin> set (map r_name (roles example_db))"
    by (simp add: example_defs)
  have b: "''mantra_curator'' \<in> set (get_user_roles example_db (Some curator_user))"
    by (simp add: example_curator_roles)
  note c = example_names_distinct
  show ?thesis
    using a b c example_root_manages
      assignRole_unknown_or_already_held [of "''guru''" example_db "Some root_user"
        "''u-curator''" initial_state curator_user "roles example_db"]
      assignRole_unknown_or_already_held [of "''mantra_curator''" example_db "Some root_user"
        "''u-curator''" initial_state curator_user "roles example_db"]
    by (simp add: curator_user_def)
qed

text \<open>
  The claim as stated fails: the curator of the example holds \<^verbatim>\<open>mantra_curator\<close>, a
  catalog role, and the super admin's \<^verbatim>\<open>assignRole\<close> of it returns a unique violation.
\<close>

theorem assignRole_already_held_counterexample:
  "''mantra_curator'' \<in> set (map r_name (roles example_db))
   \<and> ''mantra_curator'' \<in> set (get_user_roles example_db (Some curator_user))
   \<and> fst (assignRole (Some root_user) (u_id curator_user) ''mantra_curator''
        (example_db, initial_state)) = Inl UniqueViolation"
proof -
  have a: "''mantra_curator'' \<in> set (map r_name (roles example_db))"
    by (simp add: example_defs)
  have b: "''mantra_curator'' \<in> set (get_user_roles example_db (Some curator_user))"
    by (simp add: example_curator_roles)
  from a b show ?thesis
    using assignRole_held_error [OF b example_names_distinct, of "Some root_user" initial_state]
      example_root_manages
    by simp
qed

lemma select_role_id_roles:
  "select_role_id (db\<lparr>user_roles := urs\<rparr>) s N = select_role_id db s N"
  by (simp add: select_role_id_eq)

lemma assignRole_eq:
  "assignRole s I R (db, st) =
     (case select_role_id db s R of
        Inl e \<Rightarrow> (Inl e, db, st)
      | Inr rid \<Rightarrow>
          (if \<not> can_manage_roles db s then (Inl RlsViolation, db, st)
           else if (I, rid) \<in> set (map ur_key (user_roles db)) then (Inl UniqueViolation, db, st)
           else if \<not> user_role_fk (roles db) (auth_users db)
                     \<lparr>ur_user_id = I, ur_role_id = rid, ur_assigned_by = None\<rparr>
             then (Inl ForeignKeyViolation, db, st)
           else (Inr (),
                 db\<lparr>user_roles := user_roles db
                    @ [\<lparr>ur_user_id = I, ur_role_id = rid, ur_assigned_by = None\<rparr>]\<rparr>,
                 if Some I = auth_uid s
                 then fetchUserRoles (rpc_get_user_roles
                        (db\<lparr>user_roles := user_roles db
                           @ [\<lparr>ur_user_id = I, ur_role_id = rid, ur_assigned_by = None\<rparr>]\<rparr>) s) st
                 else st)))"
  by (simp add: assignRole_def exec_insert_user_roles ur_key_def del: exec.simps
      split: sum.splits)

lemma removeRole_eq:
  "removeRole s I R (db, st) =
     (case select_role_id db s R of
        Inl e \<Rightarrow> (Inl e, db, st)
      | Inr rid \<Rightarrow>
          (Inr (),
           db\<lparr>user_roles := filter (\<lambda>ur. \<not> (can_manage_roles db s
                  \<and> ur_user_id ur = I \<and> ur_role_id ur = rid)) (user_roles db)\<rparr>,
           if Some I = auth_uid s
           then fetchUserRoles (rpc_get_user_roles
                  (db\<lparr>user_roles := filter (\<lambda>ur. \<not> (can_manage_roles db s
                      \<and> ur_user_id ur = I \<and> ur_role_id ur = rid)) (user_roles db)\<rparr>) s) st
           else st))"
  by (simp add: removeRole_def exec_delete_user_roles del: exec.simps split: sum.splits)

lemma can_manage_roles_append:
  "can_manage_roles db s \<Longrightarrow> can_manage_roles (db\<lparr>user_roles := user_roles db @ rows\<rparr>) s"
  by (auto simp: can_manage_roles_def has_role_def list_ex_iff)

text \<open>What a successful \<^verbatim>\<open>assignRole\<close> has done.\<close>

lemma assignRole_success:
  assumes "assignRole s I R (db, st) = (Inr (), db1, st1)"
  shows "\<exists>rid. select_role_id db s R = Inr rid \<and> can_manage_roles db s
     \<and> db1 = db\<lparr>user_roles := user_roles db
          @ [\<lparr>ur_user_id = I, ur_role_id = rid, ur_assigned_by = None\<rparr>]\<rparr>"
  using assms by (auto simp: assignRole_eq split: sum.splits if_splits)

lemma assign_then_holds:
  assumes "assignRole s (u_id u) R (db, st) = (Inr (), db1, st1)"
  shows "R \<in> set (get_user_roles db1 (Some u))"
proof -
  from assignRole_success [OF assms] obtain rid where sel: "select_role_id db s R = Inr rid"
    and db1: "db1 = db\<lparr>user_roles := user_roles db
          @ [\<lparr>ur_user_id = u_id u, ur_role_id = rid, ur_assigned_by = None\<rparr>]\<rparr>" by blast
  from db1 have k: "(u_id u, rid) \<in> set (map ur_key (user_roles db1))"
    by (simp add: ur_key_def)
  from db1 sel have "select_role_id db1 s R = Inr rid"
    by (simp add: select_role_id_roles)
  from key_held [OF k this] show ?thesis .
qed

lemma assign_twice:
  assumes "assignRole s I R (db, st) = (Inr (), db1, st1)"
  shows "assignRole s I R (db1, st1) = (Inl UniqueViolation, db1, st1)"
proof -
  from assignRole_success [OF assms] obtain rid where sel: "select_role_id db s R = Inr rid"
    and cm: "can_manage_roles db s"
    and db1: "db1 = db\<lparr>user_roles := user_roles db
          @ [\<lparr>ur_user_id = I, ur_role_id = rid, ur_assigned_by = None\<rparr>]\<rparr>" by blast
  from db1 sel have sel1: "select_role_id db1 s R = Inr rid"
    by (simp add: select_role_id_roles)
  from cm db1 have cm1: "can_manage_roles db1 s"
    by (simp add: can_manage_roles_append)
  from db1 have k: "(I, rid) \<in> set (map ur_key (user_roles db1))"
    by (simp add: ur_key_def)
  from sel1 cm1 k show ?thesis
    by (simp add: assignRole_eq)
qed

lemma filter_id_record: "filter P (user_roles db) = user_roles db \<Longrightarrow>
  db\<lparr>user_roles := filter P (user_roles db)\<rparr> = db"
  by simp

lemma fetch_idem:
  "fetchUserRoles (rpc_get_user_roles db s) (fetchUserRoles (rpc_get_user_roles db s) st)
   = fetchUserRoles (rpc_get_user_roles db s) st"
  by (simp add: fetchUserRoles_def rpc_get_user_roles_def)

lemma revoke_twice:
  assumes "removeRole s I R (db, st) = (res, db1, st1)"
  shows "removeRole s I R (db1, st1) = (res, db1, st1)"
proof (cases "select_role_id db s R")
  case (Inl e)
  with assms show ?thesis by (auto simp: removeRole_eq)
next
  case (Inr rid)
  let ?P = "\<lambda>ur. \<not> (can_manage_roles db s \<and> ur_user_id ur = I \<and> ur_role_id ur = rid)"
  from assms Inr have res: "res = Inr ()"
    and db1: "db1 = db\<lparr>user_roles := filter ?P (user_roles db)\<rparr>"
    and st1: "st1 = (if Some I = auth_uid s
           then fetchUserRoles (rpc_get_user_roles db1 s) st else st)"
    by (auto simp: removeRole_eq)
  from db1 Inr have sel1: "select_role_id db1 s R = Inr rid"
    by (simp add: select_role_id_roles)
  have same: "filter (\<lambda>ur. \<not> (can_manage_roles db1 s \<and> ur_user_id ur = I \<and> ur_role_id ur = rid))
      (user_roles db1) = user_roles db1"
  proof (cases "can_manage_roles db s")
    case True
    with db1 have "\<forall>ur \<in> set (user_roles db1). \<not> (ur_user_id ur = I \<and> ur_role_id ur = rid)"
      by simp
    then show ?thesis unfolding filter_id_conv by blast
  next
    case False
    with db1 have "db1 = db" by simp
    with False show ?thesis by simp
  qed
  have "removeRole s I R (db1, st1) = (Inr (), db1,
      if Some I = auth_uid s then fetchUserRoles (rpc_get_user_roles db1 s) st1 else st1)"
    by (simp only: removeRole_eq sel1 sum.case filter_id_record [OF same])
  with st1 res show ?thesis by (simp add: fetch_idem)
qed

lemma revoke_not_held:
  assumes "distinct (map r_name (roles db))" and "N \<in> set (map r_name (roles db))"
    and "N \<notin> set (get_user_roles db (Some u))"
  shows "removeRole s (u_id u) N (db, st) =
     (Inr (), db, if Some (u_id u) = auth_uid s
                  then fetchUserRoles (rpc_get_user_roles db s) st else st)"
proof -
  from assms(2) obtain r where r: "r \<in> set (roles db)" "r_name r = N" by auto
  from select_role_id_known [OF assms(1) r(1)] r(2)
  have sel: "select_role_id db s N = Inr (r_id r)" by simp
  from assms(3) key_held [OF _ sel, of u]
  have "(u_id u, r_id r) \<notin> set (map ur_key (user_roles db))" by blast
  then have "filter (\<lambda>ur. \<not> (can_manage_roles db s
                  \<and> ur_user_id ur = u_id u \<and> ur_role_id ur = r_id r)) (user_roles db)
      = user_roles db"
    by (force simp: filter_id_conv ur_key_def)
  with sel show ?thesis by (simp add: removeRole_eq)
qed

lemma handleRemoveRole_not_held:
  assumes "distinct (map r_name (roles db))" and "N \<in> set (map r_name (roles db))"
    and "N \<notin> set (get_user_roles db (Some u))"
  shows "handleRemoveRole s (roles db) (u_id u) N db = (Alert ''Role removed successfully!'', db)"
proof -
  from assms(2) obtain r where r: "r \<in> set (roles db)" "r_name r = N" by auto
  from find_distinct_key [OF assms(1) r(1)] r(2)
  have fnd: "find (\<lambda>y. r_name y = N) (roles db) = Some r" by simp
  from select_role_id_known [OF assms(1) r(1)] r(2)
  have sel: "select_role_id db s N = Inr (r_id r)" by simp
  from assms(3) key_held [OF _ sel, of u]
  have "(u_id u, r_id r) \<notin> set (map ur_key (user_roles db))" by blast
  then have "filter (\<lambda>ur. \<not> (can_manage_roles db s
                  \<and> ur_user_id ur = u_id u \<and> ur_role_id ur = r_id r)) (user_roles db)
      = user_roles db"
    by (force simp: filter_id_conv ur_key_def)
  with fnd show ?thesis
    by (simp add: handleRemoveRole_def exec_delete_user_roles del: exec.simps)
qed

lemma example_select_zen: "select_role_id example_db s ''zen_analyst'' = Inr ''r7''"
  by (simp add: select_role_id_eq single_def example_defs)

lemma example_assign:
  "assignRole (Some root_user) (u_id curator_user) ''zen_analyst'' (example_db, initial_state)
   = (Inr (), assigned_db, initial_state)"
proof -
  have k: "(u_id curator_user, ''r7'') \<notin> set (map ur_key (user_roles example_db))"
    by (simp add: ur_key_def example_defs)
  have fk: "user_role_fk (roles example_db) (auth_users example_db)
      \<lparr>ur_user_id = u_id curator_user, ur_role_id = ''r7'', ur_assigned_by = None\<rparr>"
    by (simp add: user_role_fk_def example_defs)
  have u: "Some (u_id curator_user) \<noteq> auth_uid (Some root_user)"
    by (simp add: auth_uid_def example_defs)
  show ?thesis
    unfolding assignRole_eq example_select_zen
    using k fk u example_root_manages
    by (simp add: assigned_db_def curator_user_def)
qed

lemma example_remove:
  "removeRole (Some root_user) (u_id curator_user) ''zen_analyst'' (assigned_db, initial_state)
   = (Inr (), example_db, initial_state)"
proof -
  have sel: "select_role_id assigned_db (Some root_user) ''zen_analyst'' = Inr ''r7''"
    by (simp add: assigned_db_def select_role_id_roles example_select_zen)
  have cm: "can_manage_roles assigned_db (Some root_user)"
    unfolding assigned_db_def by (rule can_manage_roles_append [OF example_root_manages])
  have f: "filter (\<lambda>ur. \<not> (ur_user_id ur = u_id curator_user \<and> ur_role_id ur = ''r7''))
      (user_roles assigned_db) = user_roles example_db"
    by (simp add: assigned_db_def) (simp add: example_defs)
  have u: "Some (u_id curator_user) \<noteq> auth_uid (Some root_user)"
    by (simp add: auth_uid_def example_defs)
  have "assigned_db\<lparr>user_roles := user_roles example_db\<rparr> = example_db"
    by (simp add: assigned_db_def)
  with f u cm show ?thesis
    unfolding removeRole_eq sel by simp
qed

lemma select_role_id_caller: "select_role_id db s N = select_role_id db s' N"
  by (simp add: select_role_id_eq)

lemma revoke_after_assign:
  assumes "assignRole s (u_id u) R (db, st) = (Inr (), db1, st1)"
    and "removeRole s' (u_id u) R (db1, st') = (res, db2, st2)"
  shows "can_manage_roles db1 s' \<longrightarrow> res = Inr () \<and> R \<notin> set (get_user_roles db2 (Some u))"
    and "\<not> can_manage_roles db1 s' \<longrightarrow>
           res = Inr () \<and> db2 = db1 \<and> R \<in> set (get_user_roles db2 (Some u))"
proof -
  from assignRole_success [OF assms(1)] obtain rid where sel: "select_role_id db s R = Inr rid"
    and db1: "db1 = db\<lparr>user_roles := user_roles db
          @ [\<lparr>ur_user_id = u_id u, ur_role_id = rid, ur_assigned_by = None\<rparr>]\<rparr>" by blast
  from db1 sel have "select_role_id db1 s R = Inr rid"
    by (simp add: select_role_id_roles)
  then have sel1: "select_role_id db1 s' R = Inr rid"
    by (simp add: select_role_id_caller [of db1 s' R s])
  show "can_manage_roles db1 s' \<longrightarrow> res = Inr () \<and> R \<notin> set (get_user_roles db2 (Some u))"
  proof
    assume cm1: "can_manage_roles db1 s'"
    from assms(2) sel1 cm1 have res: "res = Inr ()"
      and db2: "db2 = db1\<lparr>user_roles := filter (\<lambda>ur. \<not> (ur_user_id ur = u_id u
                  \<and> ur_role_id ur = rid)) (user_roles db1)\<rparr>"
      by (auto simp: removeRole_eq)
    from db2 sel1 have sel2: "select_role_id db2 s' R = Inr rid"
      by (simp add: select_role_id_roles)
    from db2 have "(u_id u, rid) \<notin> set (map ur_key (user_roles db2))"
      by (auto simp: ur_key_def)
    with held_key [OF _ sel2] have "R \<notin> set (get_user_roles db2 (Some u))" by blast
    with res show "res = Inr () \<and> R \<notin> set (get_user_roles db2 (Some u))" by simp
  qed
  show "\<not> can_manage_roles db1 s' \<longrightarrow>
           res = Inr () \<and> db2 = db1 \<and> R \<in> set (get_user_roles db2 (Some u))"
  proof
    assume ncm: "\<not> can_manage_roles db1 s'"
    from assms(2) sel1 ncm have "res = Inr ()" and "db2 = db1"
      by (auto simp: removeRole_eq)
    with assign_then_holds [OF assms(1)]
    show "res = Inr () \<and> db2 = db1 \<and> R \<in> set (get_user_roles db2 (Some u))" by simp
  qed
qed

lemma assign_again:
  assumes "assignRole s I R (db, st) = (Inr (), db1, st1)"
  shows "can_manage_roles db1 s"
    and "assignRole s' I R (db1, st') =
      (Inl (if can_manage_roles db1 s' then UniqueViolation else RlsViolation), db1, st')"
proof -
  from assignRole_success [OF assms] obtain rid where sel: "select_role_id db s R = Inr rid"
    and cm: "can_manage_roles db s"
    and db1: "db1 = db\<lparr>user_roles := user_roles db
          @ [\<lparr>ur_user_id = I, ur_role_id = rid, ur_assigned_by = None\<rparr>]\<rparr>" by blast
  from cm db1 show "can_manage_roles db1 s"
    by (simp add: can_manage_roles_append)
  from db1 sel have "select_role_id db1 s R = Inr rid"
    by (simp add: select_role_id_roles)
  then have sel1: "select_role_id db1 s' R = Inr rid"
    by (simp add: select_role_id_caller [of db1 s' R s])
  from db1 have k: "(I, rid) \<in> set (map ur_key (user_roles db1))"
    by (simp add: ur_key_def)
  from sel1 k show "assignRole s' I R (db1, st') =
      (Inl (if can_manage_roles db1 s' then UniqueViolation else RlsViolation), db1, st')"
    by (simp add: assignRole_eq)
qed

lemma revoke_catalog_no_error:
  assumes "distinct (map r_name (roles db))" and "R \<in> set (map r_name (roles db))"
  shows "fst (removeRole s I R (db, st)) = Inr ()"
proof -
  from assms(2) obtain r where r: "r \<in> set (roles db)" "r_name r = R" by auto
  from select_role_id_known [OF assms(1) r(1)] r(2)
  have "select_role_id db s R = Inr (r_id r)" by simp
  then show ?thesis by (simp add: removeRole_eq)
qed

lemma example_curator_cannot_manage: "\<not> can_manage_roles assigned_db (Some curator_user)"
  by (simp add: can_manage_roles_def has_role_iff get_user_roles_def auth_uid_def
      assigned_db_def example_defs)

lemma example_curator_remove:
  "removeRole (Some curator_user) (u_id curator_user) ''zen_analyst''
     (assigned_db, initial_state)
   = (Inr (), assigned_db,
      fetchUserRoles (rpc_get_user_roles assigned_db (Some curator_user)) initial_state)"
proof -
  have sel: "select_role_id assigned_db (Some curator_user) ''zen_analyst'' = Inr ''r7''"
    by (simp add: assigned_db_def select_role_id_roles example_select_zen)
  have u: "Some (u_id curator_user) = auth_uid (Some curator_user)"
    by (simp add: auth_uid_def)
  show ?thesis
    unfolding removeRole_eq sel using example_curator_cannot_manage u by simp
qed

text \<open>
  C3 (assign, revoke and their repetition), as the code has it. After a successful
  \<^verbatim>\<open>assignRole\<close> the identity's roles contain the role, and the assigner can still
  manage roles. A following \<^verbatim>\<open>removeRole\<close> returns without error whoever calls: by a
  caller who can manage roles it removes the role, by any other caller it removes
  nothing. A following \<^verbatim>\<open>assignRole\<close> leaves the store as the first left it, but fails:
  with a unique violation for a caller who can manage roles (the assigner is one), with
  a row level security violation for any other. \<^verbatim>\<open>removeRole\<close> of a catalog role never
  fails, and a second \<^verbatim>\<open>removeRole\<close> right after a first returns what the first returned
  and changes nothing.
\<close>

theorem assign_revoke_roundtrip:
  "(assignRole s (u_id u) R (db, st) = (Inr (), db1, st1) \<longrightarrow>
      R \<in> set (get_user_roles db1 (Some u))
      \<and> can_manage_roles db1 s
      \<and> (can_manage_roles db1 s' \<and> removeRole s' (u_id u) R (db1, st') = (res, db2, st2) \<longrightarrow>
           res = Inr () \<and> R \<notin> set (get_user_roles db2 (Some u)))
      \<and> (\<not> can_manage_roles db1 s' \<and> removeRole s' (u_id u) R (db1, st') = (res, db2, st2) \<longrightarrow>
           res = Inr () \<and> db2 = db1 \<and> R \<in> set (get_user_roles db2 (Some u)))
      \<and> assignRole s (u_id u) R (db1, st1) = (Inl UniqueViolation, db1, st1)
      \<and> assignRole s' (u_id u) R (db1, st') =
          (Inl (if can_manage_roles db1 s' then UniqueViolation else RlsViolation), db1, st'))
   \<and> (distinct (map r_name (roles db)) \<and> R \<in> set (map r_name (roles db)) \<longrightarrow>
        fst (removeRole s I R (db, st)) = Inr ())
   \<and> (removeRole s I R (db, st) = (res', db', st'') \<longrightarrow>
        removeRole s I R (db', st'') = (res', db', st''))"
  using assign_then_holds [of s u R db st db1 st1]
    revoke_after_assign(1) [of s u R db st db1 st1 s' st' res db2 st2]
    revoke_after_assign(2) [of s u R db st db1 st1 s' st' res db2 st2]
    assign_twice [of s "u_id u" R db st db1 st1]
    assign_again(1) [of s "u_id u" R db st db1 st1]
    assign_again(2) [of s "u_id u" R db st db1 st1 s' st']
    revoke_catalog_no_error [of db R s I st]
    revoke_twice [of s I R db st res' db' st'']
  by blast

theorem assign_revoke_roundtrip_witness:
  "assignRole (Some root_user) (u_id curator_user) ''zen_analyst'' (example_db, initial_state)
     = (Inr (), assigned_db, initial_state)
   \<and> ''zen_analyst'' \<in> set (get_user_roles assigned_db (Some curator_user))
   \<and> can_manage_roles assigned_db (Some root_user)
   \<and> removeRole (Some root_user) (u_id curator_user) ''zen_analyst'' (assigned_db, initial_state)
     = (Inr (), example_db, initial_state)
   \<and> ''zen_analyst'' \<notin> set (get_user_roles example_db (Some curator_user))
   \<and> \<not> can_manage_roles assigned_db (Some curator_user)
   \<and> removeRole (Some curator_user) (u_id curator_user) ''zen_analyst''
        (assigned_db, initial_state)
     = (Inr (), assigned_db,
        fetchUserRoles (rpc_get_user_roles assigned_db (Some curator_user)) initial_state)
   \<and> assignRole (Some root_user) (u_id curator_user) ''zen_analyst'' (assigned_db, initial_state)
     = (Inl UniqueViolation, assigned_db, initial_state)
   \<and> assignRole (Some curator_user) (u_id curator_user) ''zen_analyst''
        (assigned_db, initial_state)
     = (Inl RlsViolation, assigned_db, initial_state)
   \<and> distinct (map r_name (roles assigned_db))
   \<and> ''zen_analyst'' \<in> set (map r_name (roles assigned_db))
   \<and> fst (removeRole (Some root_user) (u_id curator_user) ''zen_analyst''
        (assigned_db, initial_state)) = Inr ()
   \<and> removeRole (Some root_user) (u_id curator_user) ''zen_analyst'' (example_db, initial_state)
     = (Inr (), example_db, initial_state)"
proof -
  have d: "distinct (map r_name (roles assigned_db))"
    using example_names_distinct by (simp add: assigned_db_def)
  have n: "''zen_analyst'' \<in> set (map r_name (roles assigned_db))"
    by (simp add: assigned_db_def) (simp add: example_defs)
  note byroot = assign_revoke_roundtrip [of "Some root_user" curator_user "''zen_analyst''"
      example_db initial_state assigned_db initial_state "Some root_user" initial_state
      "Inr ()" example_db initial_state "u_id curator_user" "Inr ()" example_db initial_state]
  note bycurator = assign_revoke_roundtrip [of "Some root_user" curator_user "''zen_analyst''"
      example_db initial_state assigned_db initial_state "Some curator_user" initial_state
      "Inr ()" assigned_db
      "fetchUserRoles (rpc_get_user_roles assigned_db (Some curator_user)) initial_state"
      "u_id curator_user" "Inr ()" example_db initial_state]
  note again = assign_revoke_roundtrip [of "Some root_user" curator_user "''zen_analyst''"
      assigned_db initial_state assigned_db initial_state "Some root_user" initial_state
      "Inr ()" example_db initial_state "u_id curator_user" "Inr ()" example_db initial_state]
  from example_assign byroot have a: "''zen_analyst'' \<in> set (get_user_roles assigned_db (Some curator_user))"
    and cm: "can_manage_roles assigned_db (Some root_user)"
    and tw: "assignRole (Some root_user) (u_id curator_user) ''zen_analyst''
        (assigned_db, initial_state) = (Inl UniqueViolation, assigned_db, initial_state)"
    by blast+
  from example_assign example_remove byroot cm
  have gone: "''zen_analyst'' \<notin> set (get_user_roles example_db (Some curator_user))"
    by blast
  from example_assign bycurator example_curator_cannot_manage
  have rls: "assignRole (Some curator_user) (u_id curator_user) ''zen_analyst''
        (assigned_db, initial_state) = (Inl RlsViolation, assigned_db, initial_state)"
    by simp
  from d n again have ne: "fst (removeRole (Some root_user) (u_id curator_user) ''zen_analyst''
        (assigned_db, initial_state)) = Inr ()"
    by blast
  from example_remove again
  have idem: "removeRole (Some root_user) (u_id curator_user) ''zen_analyst''
      (example_db, initial_state) = (Inr (), example_db, initial_state)"
    by blast
  from example_assign a cm example_remove gone example_curator_cannot_manage
    example_curator_remove tw rls d n ne idem
  show ?thesis by blast
qed

text \<open>
  The claim as stated fails twice in the example. The super admin's first assignment of
  \<^verbatim>\<open>zen_analyst\<close> to the curator succeeds and the second returns a unique violation.
  And after the assignment the curator, who cannot manage roles, revokes the role from
  itself: the call returns without error and the curator still holds the role.
\<close>

theorem assign_revoke_counterexample:
  "assignRole (Some root_user) (u_id curator_user) ''zen_analyst'' (example_db, initial_state)
     = (Inr (), assigned_db, initial_state)
   \<and> fst (assignRole (Some root_user) (u_id curator_user) ''zen_analyst''
          (assigned_db, initial_state)) = Inl UniqueViolation
   \<and> fst (removeRole (Some curator_user) (u_id curator_user) ''zen_analyst''
          (assigned_db, initial_state)) = Inr ()
   \<and> ''zen_analyst'' \<in> set (get_user_roles
          (fst (snd (removeRole (Some curator_user) (u_id curator_user) ''zen_analyst''
             (assigned_db, initial_state)))) (Some curator_user))"
proof -
  have held: "''zen_analyst'' \<in> set (get_user_roles assigned_db (Some curator_user))"
    by (rule assign_then_holds [OF example_assign])
  from example_assign assign_twice [OF example_assign] held show ?thesis
    by (simp add: example_curator_remove)
qed

text \<open>
  C7 (revoking a role that is not held). For a name of the catalog (whose names are
  unique) that the identity does not hold, \<^verbatim>\<open>removeRole\<close> returns without error and
  the database is unchanged, whoever calls; so does \<^verbatim>\<open>handleRemoveRole\<close> on the loaded
  catalog.
\<close>

theorem revoke_not_held_is_noop:
  assumes "distinct (map r_name (roles db))" and "N \<in> set (map r_name (roles db))"
    and "N \<notin> set (get_user_roles db (Some u))"
  shows "fst (removeRole s (u_id u) N (db, st)) = Inr ()
     \<and> fst (snd (removeRole s (u_id u) N (db, st))) = db
     \<and> handleRemoveRole s (roles db) (u_id u) N db = (Alert ''Role removed successfully!'', db)"
  using revoke_not_held [OF assms, of s st] handleRemoveRole_not_held [OF assms, of s]
  by simp

theorem revoke_not_held_is_noop_witness:
  "distinct (map r_name (roles example_db))
   \<and> ''zen_analyst'' \<in> set (map r_name (roles example_db))
   \<and> ''zen_analyst'' \<notin> set (get_user_roles example_db (Some curator_user))
   \<and> fst (removeRole (Some root_user) (u_id curator_user) ''zen_analyst''
        (example_db, initial_state)) = Inr ()
   \<and> fst (snd (removeRole (Some root_user) (u_id curator_user) ''zen_analyst''
        (example_db, initial_state))) = example_db
   \<and> handleRemoveRole (Some root_user) (roles example_db) (u_id curator_user) ''zen_analyst''
        example_db = (Alert ''Role removed successfully!'', example_db)"
proof -
  have a: "''zen_analyst'' \<in> set (map r_name (roles example_db))"
    by (simp add: example_defs)
  have b: "''zen_analyst'' \<notin> set (get_user_roles example_db (Some curator_user))"
    by (simp add: example_curator_roles)
  from revoke_not_held_is_noop [OF example_names_distinct a b, of "Some root_user" initial_state]
    example_names_distinct a b
  show ?thesis by blast
qed

section \<open>The primary key of the assignments\<close>

lemma pk_filter: "user_roles_pk urs \<Longrightarrow> user_roles_pk (filter P urs)"
  by (simp add: user_roles_pk_def distinct_map_filter)

lemma pk_append:
  "user_roles_pk urs \<Longrightarrow> ur_key row \<notin> set (map ur_key urs) \<Longrightarrow> user_roles_pk (urs @ [row])"
  by (simp add: user_roles_pk_def)

lemma delete_user_roles_scan_pk:
  "distinct (map ur_key (kept @ rest))
   \<Longrightarrow> distinct (map ur_key (delete_user_roles_scan db s wh kept rest))"
  by (induction rest arbitrary: kept) auto

lemma update_user_roles_scan_pk:
  "distinct (map ur_key (kept @ rest)) \<Longrightarrow> update_user_roles_scan db s wh upd kept rest = Inr urs'
   \<Longrightarrow> distinct (map ur_key urs')"
proof (induction rest arbitrary: kept)
  case Nil
  then show ?case by simp
next
  case (Cons ur rest)
  show ?case
  proof (cases "rls_target policies (db\<lparr>user_roles := kept @ ur # rest\<rparr>) s T_user_roles UPDATE
           (Some (ur_user_id ur)) \<and> wh ur")
    case True
    with Cons.prems(2) have new: "ur_key (upd ur) \<notin> set (map ur_key (kept @ rest))"
      and scan: "update_user_roles_scan db s wh upd (kept @ [upd ur]) rest = Inr urs'"
      by (auto split: if_splits)
    from Cons.prems(1) new have "distinct (map ur_key ((kept @ [upd ur]) @ rest))" by auto
    from Cons.IH [OF this scan] show ?thesis .
  next
    case False
    with Cons.prems(2) have scan: "update_user_roles_scan db s wh upd (kept @ [ur]) rest = Inr urs'"
      by (auto split: if_splits)
    from Cons.prems(1) have "distinct (map ur_key ((kept @ [ur]) @ rest))" by simp
    from Cons.IH [OF this scan] show ?thesis .
  qed
qed

lemma exec_pk:
  assumes "user_roles_pk (user_roles db)" and "exec db s q = Inr db'"
  shows "user_roles_pk (user_roles db')"
proof (cases q)
  case (Insert_roles row)
  with assms show ?thesis by (auto split: if_splits)
next
  case (Update_roles wh upd)
  with assms show ?thesis by (auto split: sum.splits if_splits)
next
  case (Delete_roles wh)
  with assms show ?thesis by (auto simp: pk_filter split: prod.splits)
next
  case (Insert_user_roles row)
  with assms show ?thesis by (auto simp: pk_append split: if_splits)
next
  case (Update_user_roles wh upd)
  with assms(2) obtain urs' where scan:
      "update_user_roles_scan db s wh upd [] (user_roles db) = Inr urs'"
    and db': "user_roles db' = urs'"
    by (auto split: sum.splits if_splits)
  from assms(1) have "distinct (map ur_key ([] @ user_roles db))"
    by (simp add: user_roles_pk_def)
  from update_user_roles_scan_pk [OF this scan] db' show ?thesis
    by (simp add: user_roles_pk_def)
next
  case (Delete_user_roles wh)
  from assms(1) have "distinct (map ur_key ([] @ user_roles db))"
    by (simp add: user_roles_pk_def)
  from delete_user_roles_scan_pk [OF this] Delete_user_roles assms(2) show ?thesis
    by (auto simp: user_roles_pk_def)
qed

lemma insert_on_conflict_pk:
  "user_roles_pk (user_roles db) \<Longrightarrow> insert_on_conflict_do_nothing db row = Inr db'
   \<Longrightarrow> user_roles_pk (user_roles db')"
  by (auto simp: insert_on_conflict_do_nothing_def pk_append split: if_splits)

lemma migrate_loop_pk:
  "user_roles_pk (user_roles db) \<Longrightarrow> migrate_loop sa ad recs db = Inr db'
   \<Longrightarrow> user_roles_pk (user_roles db')"
proof (induction recs arbitrary: db)
  case Nil
  then show ?case by simp
next
  case (Cons a recs)
  then show ?case
    by (auto split: option.splits sum.splits dest: insert_on_conflict_pk)
qed

lemma assign_default_role_pk:
  "user_roles_pk (user_roles db) \<Longrightarrow> assign_default_role db new = Inr db'
   \<Longrightarrow> user_roles_pk (user_roles db')"
  by (auto simp: assign_default_role_def split: option.splits dest: insert_on_conflict_pk)

lemma assignRole_pk:
  "user_roles_pk (user_roles db) \<Longrightarrow> assignRole s I R (db, st) = (res, db', st')
   \<Longrightarrow> user_roles_pk (user_roles db')"
  by (auto simp: assignRole_def simp del: exec.simps split: sum.splits dest: exec_pk)

lemma removeRole_pk:
  "user_roles_pk (user_roles db) \<Longrightarrow> removeRole s I R (db, st) = (res, db', st')
   \<Longrightarrow> user_roles_pk (user_roles db')"
  by (auto simp: removeRole_def simp del: exec.simps split: sum.splits dest: exec_pk)

lemma handleAssignRole_pk:
  "user_roles_pk (user_roles db) \<Longrightarrow> handleAssignRole s catalog I R db = (out, db')
   \<Longrightarrow> user_roles_pk (user_roles db')"
  by (auto simp: handleAssignRole_def simp del: exec.simps split: option.splits sum.splits dest: exec_pk)

lemma handleRemoveRole_pk:
  "user_roles_pk (user_roles db) \<Longrightarrow> handleRemoveRole s catalog I R db = (out, db')
   \<Longrightarrow> user_roles_pk (user_roles db')"
  by (auto simp: handleRemoveRole_def simp del: exec.simps split: option.splits sum.splits dest: exec_pk)

lemma reachable_pk: "reachable db \<Longrightarrow> user_roles_pk (user_roles db)"
proof (induction rule: reachable.induct)
  case (created db)
  then show ?case by (simp add: user_roles_pk_def)
next
  case (statement db s q db')
  then show ?case by (blast intro: exec_pk)
next
  case (assign db s userId roleName st res db' st')
  then show ?case by (blast intro: assignRole_pk)
next
  case (remove db s userId roleName st res db' st')
  then show ?case by (blast intro: removeRole_pk)
next
  case (handle_assign db s catalog userId roleName out db')
  then show ?case by (blast intro: handleAssignRole_pk)
next
  case (handle_remove db s catalog userId roleName out db')
  then show ?case by (blast intro: handleRemoveRole_pk)
next
  case (migration db db')
  then show ?case by (auto simp: migrate_admin_users_def dest: migrate_loop_pk)
next
  case (default_role db new db')
  then show ?case by (blast intro: assign_default_role_pk)
next
  case (legacy_admins db as)
  then show ?case by simp
next
  case (new_user db u)
  then show ?case by simp
next
  case (deleted_user db uid)
  then show ?case by (simp add: pk_filter)
qed

lemma distinct_key_at_most_once:
  "distinct (map f xs) \<Longrightarrow> length (filter (\<lambda>x. f x = k) xs) \<le> 1"
proof (induction xs)
  case Nil
  then show ?case by simp
next
  case (Cons a xs)
  show ?case
  proof (cases "f a = k")
    case True
    with Cons.prems have "k \<notin> f ` set xs" by simp
    then have "filter (\<lambda>x. f x = k) xs = []"
      unfolding filter_empty_conv by (metis imageI)
    with True show ?thesis by simp
  next
    case False
    with Cons show ?thesis by simp
  qed
qed

lemma example_migration: "migrate_admin_users bootstrap_db = Inr migrated_db"
  by (simp add: migrate_admin_users_def role_id_of_def bootstrap_db_def migrated_db_def
      insert_on_conflict_do_nothing_def user_role_fk_def ur_key_def example_defs)

lemma migrated_reachable: "reachable migrated_db"
proof -
  have "reachable bootstrap_db"
    by (rule reachable.created) (simp add: bootstrap_db_def)
  from reachable.migration [OF this example_migration] show ?thesis .
qed

text \<open>
  C8 (an identity holds each role at most once). In every reachable state of the
  database the pairs \<^verbatim>\<open>(user_id, role_id)\<close> of \<^verbatim>\<open>user_roles\<close> are pairwise distinct, so
  each pair has at most one row: no sequence of statements, hook calls, handler calls,
  migration runs or default role assignments produces a duplicate.
\<close>

theorem assignment_pairs_unique:
  assumes "reachable db"
  shows "distinct (map (\<lambda>ur. (ur_user_id ur, ur_role_id ur)) (user_roles db))
    \<and> length (filter (\<lambda>ur. ur_user_id ur = i \<and> ur_role_id ur = r) (user_roles db)) \<le> 1"
proof -
  have d: "distinct (map ur_key (user_roles db))"
    using reachable_pk [OF assms] by (simp add: user_roles_pk_def)
  have "filter (\<lambda>ur. ur_user_id ur = i \<and> ur_role_id ur = r) (user_roles db)
      = filter (\<lambda>ur. ur_key ur = (i, r)) (user_roles db)"
    by (simp add: ur_key_def)
  moreover have "length (filter (\<lambda>ur. ur_key ur = (i, r)) (user_roles db)) \<le> 1"
    by (rule distinct_key_at_most_once [OF d])
  ultimately show ?thesis using d by (simp add: ur_key_def [abs_def])
qed

theorem assignment_pairs_unique_witness:
  "reachable migrated_db
   \<and> distinct (map (\<lambda>ur. (ur_user_id ur, ur_role_id ur)) (user_roles migrated_db))
   \<and> length (filter (\<lambda>ur. ur_user_id ur = ''u-root'' \<and> ur_role_id ur = ''r1'')
        (user_roles migrated_db)) \<le> 1"
  using migrated_reachable assignment_pairs_unique [OF migrated_reachable, of "''u-root''" "''r1''"]
  by blast

section \<open>Access to articles\<close>

lemma anon_not_admin: "\<not> is_admin db None"
  by (simp add: is_admin_def auth_uid_def auth_email_def list_ex_iff)

lemma all_policies_roles_tables:
  "t = T_roles \<or> t = T_user_roles \<Longrightarrow>
   rls_using all_policies db s t c uid = rls_using policies db s t c uid
   \<and> rls_with_check all_policies db s t c uid = rls_with_check policies db s t c uid"
  by (auto simp: all_policies_def articles_public_read_def rls_using_def rls_with_check_def
      applies_def)

lemma articles_write_using:
  "c \<noteq> SELECT \<Longrightarrow>
   rls_using all_policies db s T_articles c uid
     = (has_role db s ''mantra_curator'' \<or> is_admin db s)"
  using anon_no_role [of db "''mantra_curator''"] anon_not_admin [of db]
  by (cases c; cases s)
     (auto simp: all_policies_def articles_public_read_def policies_def rls_using_def
        applies_def current_role_def)

lemma articles_write_check:
  "c \<noteq> SELECT \<Longrightarrow>
   rls_with_check all_policies db s T_articles c uid
     = (has_role db s ''mantra_curator'' \<or> is_admin db s)"
  using anon_no_role [of db "''mantra_curator''"] anon_not_admin [of db]
  by (cases c; cases s)
     (auto simp: all_policies_def articles_public_read_def policies_def rls_with_check_def
        applies_def current_role_def)

lemma articles_read: "rls_using all_policies db s T_articles SELECT uid"
  by (cases s)
     (simp_all add: all_policies_def articles_public_read_def rls_using_def applies_def
        current_role_def)

text \<open>
  C9 (access to articles). Under the policies of the migration together with the public
  read policy, an \<^verbatim>\<open>INSERT\<close>, \<^verbatim>\<open>UPDATE\<close> or \<^verbatim>\<open>DELETE\<close> on \<^verbatim>\<open>articles\<close> passes exactly
  when \<^verbatim>\<open>has_role('mantra_curator') OR is_admin()\<close> holds, every caller may read
  articles, and a caller whose only role is \<^verbatim>\<open>mantra_curator\<close> may write articles while
  none of its writes to \<^verbatim>\<open>roles\<close> or \<^verbatim>\<open>user_roles\<close> passes.
\<close>

theorem articles_access:
  "(c \<noteq> SELECT \<longrightarrow>
      rls_using all_policies db s T_articles c uid
        = (has_role db s ''mantra_curator'' \<or> is_admin db s)
      \<and> rls_with_check all_policies db s T_articles c uid
        = (has_role db s ''mantra_curator'' \<or> is_admin db s))
   \<and> rls_using all_policies db s T_articles SELECT uid
   \<and> (set (get_user_roles db s) = {''mantra_curator''} \<and> c \<noteq> SELECT \<longrightarrow>
        rls_using all_policies db s T_articles c uid
        \<and> rls_with_check all_policies db s T_articles c uid
        \<and> \<not> rls_using all_policies db s T_roles c uid
        \<and> \<not> rls_with_check all_policies db s T_roles c uid
        \<and> \<not> rls_using all_policies db s T_user_roles c uid
        \<and> \<not> rls_with_check all_policies db s T_user_roles c uid
        \<and> (exec db s q = Inl RlsViolation \<or> exec db s q = Inr db))"
proof -
  have only: "set (get_user_roles db s) = {''mantra_curator''} \<Longrightarrow>
      has_role db s ''mantra_curator'' \<and> \<not> can_manage_roles db s"
    by (simp add: has_role_iff can_manage_roles_def)
  show ?thesis
    using only exec_without_super_admin [of db s q]
    by (simp add: articles_write_using articles_write_check articles_read
        all_policies_roles_tables rls_write_using rls_write_check)
qed

theorem articles_access_witness:
  "set (get_user_roles example_db (Some curator_user)) = {''mantra_curator''}
   \<and> INSERT \<noteq> SELECT
   \<and> rls_with_check all_policies example_db (Some curator_user) T_articles INSERT None
   \<and> rls_using all_policies example_db (Some curator_user) T_articles SELECT None
   \<and> \<not> rls_with_check all_policies example_db (Some curator_user) T_user_roles INSERT None
   \<and> exec example_db (Some curator_user) grant_self_super_admin = Inl RlsViolation"
proof -
  have a: "set (get_user_roles example_db (Some curator_user)) = {''mantra_curator''}"
    by (simp add: example_curator_roles)
  have b: "exec example_db (Some curator_user) grant_self_super_admin \<noteq> Inr example_db"
    using a by (simp add: grant_self_super_admin_def rls_write_check can_manage_roles_def
        has_role_iff)
  have c: "INSERT \<noteq> SELECT" by simp
  from a b c show ?thesis
    using articles_access [of INSERT example_db "Some curator_user" None grant_self_super_admin]
    by blast
qed

end
